theory Spec2Isabelle
  imports Main
begin

section \<open>Voice AI assistant: the request pipeline of main.py\<close>

text \<open>
  The development embeds \<^verbatim>\<open>transcribe_audio\<close>, \<^verbatim>\<open>process_query\<close>, \<^verbatim>\<open>chat_voice\<close> and
  \<^verbatim>\<open>chat_text\<close> of \<^verbatim>\<open>main.py\<close>. The speech engine, the agent, the temp-file calls
  and the upload are collaborators: each is a function that returns either the fault
  it raises or its value. Only faults of class \<^verbatim>\<open>Exception\<close> are modelled, since these
  are what the handlers' \<^verbatim>\<open>except Exception\<close> clauses see; interpreter signals
  (\<^verbatim>\<open>KeyboardInterrupt\<close>, \<^verbatim>\<open>SystemExit\<close>, task cancellation) are outside the model, and so
  is the interleaving of concurrent requests.
\<close>

subsection \<open>Strings\<close>

text \<open>
  A Python \<^verbatim>\<open>str\<close> is a sequence of code points. A literal of the source is written
  \<open>str ''...''\<close>.
\<close>

type_synonym pystr = "nat list"

abbreviation str :: "string \<Rightarrow> pystr" where
  "str s \<equiv> map of_char s"

text \<open>
  \<^verbatim>\<open>str.isspace\<close> for one code point: the characters CPython's \<^verbatim>\<open>str.strip()\<close>
  removes when called without argument.
\<close>

definition isspace :: "nat \<Rightarrow> bool" where
  "isspace c =
     ((9 \<le> c \<and> c \<le> 13) \<or> (28 \<le> c \<and> c \<le> 32) \<or> c = 133 \<or> c = 160 \<or> c = 5760 \<or>
      (8192 \<le> c \<and> c \<le> 8202) \<or> c = 8232 \<or> c = 8233 \<or> c = 8239 \<or> c = 8287 \<or>
      c = 12288)"

definition strip :: "pystr \<Rightarrow> pystr" where
  "strip s = rev (dropWhile isspace (rev (dropWhile isspace s)))"

text \<open>\<^verbatim>\<open>s.endswith(t)\<close> and \<^verbatim>\<open>s.endswith((t1, ..., tn))\<close>.\<close>

definition endswith :: "pystr \<Rightarrow> pystr \<Rightarrow> bool" where
  "endswith s t = (length t \<le> length s \<and> drop (length s - length t) s = t)"

definition endswith_any :: "pystr \<Rightarrow> pystr list \<Rightarrow> bool" where
  "endswith_any s ts = list_ex (endswith s) ts"

text \<open>
  \<^verbatim>\<open>os.path.splitext\<close> (POSIX): the extension starts at the last dot of the last
  path component, unless only dots precede it there.
\<close>

definition splitext :: "pystr \<Rightarrow> pystr \<times> pystr" where
  "splitext p =
     (let base = rev (takeWhile (\<lambda>c. c \<noteq> of_char CHR ''/'') (rev p));
          tail = rev (takeWhile (\<lambda>c. c \<noteq> of_char CHR ''.'') (rev base));
          stem = take (length base - length tail - 1) base
      in if of_char CHR ''.'' \<in> set base \<and> list_ex (\<lambda>c. c \<noteq> of_char CHR ''.'') stem
         then (take (length p - length tail - 1) p, drop (length p - length tail - 1) p)
         else (p, []))"

subsection \<open>Data\<close>

text \<open>
  A raised exception: an \<^verbatim>\<open>HTTPException(status_code, detail)\<close>, or an \<^verbatim>\<open>Exception\<close>
  of any other class (an \<^verbatim>\<open>OSError\<close>, say) with its message.
\<close>

datatype exn = HTTPException nat pystr | Exception pystr

text \<open>
  The dictionary \<^verbatim>\<open>process_query\<close> returns, and \<^verbatim>\<open>VoiceResponse\<close>, which adds the
  transcript to the same two fields.
\<close>

record query_result =
  response :: pystr
  search_triggered :: bool

record VoiceResponse = query_result +
  transcript :: pystr

text \<open>
  What the collaborators return. Of the engine's result only the key \<^verbatim>\<open>"text"\<close> is
  read, of the agent's the keys \<^verbatim>\<open>"output"\<close> and \<^verbatim>\<open>"intermediate_steps"\<close>; \<open>None\<close> is
  a missing key. A step of the agent's trace is a pair of the action taken and the
  observation made; of the action only \<^verbatim>\<open>tool\<close> is read.
\<close>

record transcription =
  text_key :: "pystr option"

record AgentAction =
  tool :: pystr
  tool_input :: pystr

type_synonym step = "AgentAction \<times> pystr"

record agent_result =
  output_text :: "pystr option"
  intermediate_steps :: "step list option"

type_synonym path = pystr
type_synonym bytes = "char list"
type_synonym fs = "path \<rightharpoonup> bytes"

text \<open>The upload: its file name, and what \<^verbatim>\<open>await file.read()\<close> gives.\<close>

record UploadFile =
  filename :: pystr
  read :: "exn + bytes"

text \<open>
  The module's globals that the handlers read, \<open>None\<close> until \<^verbatim>\<open>initialize_models\<close>
  has set them, and the temp-file calls of the standard library:
  \<^verbatim>\<open>NamedTemporaryFile(delete=False, suffix=...)\<close> gives the name of the file it
  creates or the message of the \<^verbatim>\<open>OSError\<close> it raises, \<^verbatim>\<open>tmp.write\<close> and \<^verbatim>\<open>os.unlink\<close>
  give the message of the \<^verbatim>\<open>OSError\<close> they raise, if any. The engine, the agent and
  the upload may raise any exception.

  The record is what one request finds. Its temp-file fields are the answers these
  calls give to that request, in which each is called once: \<^verbatim>\<open>NamedTemporaryFile\<close>
  draws a fresh random name at every call, and a fault of the file system may come
  and go. A statement about two requests gives each request its own record; the two
  records share the globals and nothing else.
\<close>

record env =
  whisper_model :: "(fs \<Rightarrow> path \<Rightarrow> exn + transcription) option"
  agent_executor :: "(pystr \<Rightarrow> exn + agent_result) option"
  NamedTemporaryFile :: "fs \<Rightarrow> pystr \<Rightarrow> pystr + path"
  tmp_write :: "fs \<Rightarrow> path \<Rightarrow> bytes \<Rightarrow> pystr option"
  os_unlink :: "fs \<Rightarrow> path \<Rightarrow> pystr option"

text \<open>
  The state a request runs in: the files on disk, and (as a test double would
  record them) the calls made so far, oldest first. No collaborator reads the
  record of calls.
\<close>

datatype call =
    Call_NamedTemporaryFile pystr
  | Call_transcribe_audio path
  | Call_transcribe path
  | Call_unlink path
  | Call_process_query pystr
  | Call_invoke pystr

record world =
  files :: fs
  calls :: "call list"

definition record_call :: "call \<Rightarrow> world \<Rightarrow> world" where
  "record_call c w = w\<lparr>calls := calls w @ [c]\<rparr>"

subsection \<open>The pipeline\<close>

text \<open>\<^verbatim>\<open>d.get(key, default)\<close> on a key that may be missing.\<close>

definition dict_get :: "'a option \<Rightarrow> 'a \<Rightarrow> 'a" where
  "dict_get v dflt = (case v of None \<Rightarrow> dflt | Some x \<Rightarrow> x)"

text \<open>
  \<^verbatim>\<open>transcribe_audio\<close>: 503 while the engine is not there; any fault of the engine
  becomes a 500; otherwise the text, trimmed.
\<close>

definition transcribe_audio :: "env \<Rightarrow> path \<Rightarrow> world \<Rightarrow> (exn + pystr) \<times> world" where
  "transcribe_audio env file_path w =
     (let w0 = record_call (Call_transcribe_audio file_path) w in
      case whisper_model env of
        None \<Rightarrow> (Inl (HTTPException 503 (str ''Models not initialized yet'')), w0)
      | Some model \<Rightarrow>
          (let w1 = record_call (Call_transcribe file_path) w0 in
           case model (files w1) file_path of
             Inl e \<Rightarrow> (Inl (HTTPException 500 (str ''Audio processing failed'')), w1)
           | Inr result \<Rightarrow> (Inr (strip (dict_get (text_key result) [])), w1)))"

text \<open>
  \<^verbatim>\<open>process_query\<close>: 503 while the agent is not there (raised before the \<^verbatim>\<open>try\<close>);
  inside the \<^verbatim>\<open>try\<close>, the empty query is answered at once, and any fault of the
  agent becomes the apology.
\<close>

definition process_query :: "env \<Rightarrow> pystr \<Rightarrow> world \<Rightarrow> (exn + query_result) \<times> world" where
  "process_query env query w =
     (let w0 = record_call (Call_process_query query) w in
      case agent_executor env of
        None \<Rightarrow> (Inl (HTTPException 503 (str ''Models not initialized yet'')), w0)
      | Some agent \<Rightarrow>
          if query = [] then
            (Inr \<lparr>response = str ''I didn't catch that. Could you please repeat?'',
                  search_triggered = False\<rparr>, w0)
          else
            (let w1 = record_call (Call_invoke query) w0 in
             case agent query of
               Inl e \<Rightarrow>
                 (Inr \<lparr>response = str ''I encountered an error processing your request.'',
                       search_triggered = False\<rparr>, w1)
             | Inr result \<Rightarrow>
                 (Inr \<lparr>response =
                         dict_get (output_text result) (str ''I couldn't process that request.''),
                       search_triggered =
                         list_ex (\<lambda>step. tool (fst step) = str ''WebSearch'')
                           (dict_get (intermediate_steps result) [])\<rparr>, w1)))"

text \<open>
  The body of the first \<^verbatim>\<open>try\<close> of \<^verbatim>\<open>chat_voice\<close>: the temp file is created under
  a name not in use (with \<^verbatim>\<open>delete=False\<close>, so it stays when the block is left),
  the upload is read and written to it. A file left behind by a failed write keeps
  the content it was created with.
\<close>

definition save_upload :: "env \<Rightarrow> UploadFile \<Rightarrow> world \<Rightarrow> (exn + path) \<times> world" where
  "save_upload env file w =
     (let suffix = snd (splitext (filename file));
          w0 = record_call (Call_NamedTemporaryFile suffix) w in
      case NamedTemporaryFile env (files w0) suffix of
        Inl msg \<Rightarrow> (Inl (Exception msg), w0)
      | Inr name \<Rightarrow>
          if files w0 name \<noteq> None then (Inl (Exception (str ''FileExistsError'')), w0)
          else
            (let w1 = w0\<lparr>files := (files w0)(name \<mapsto> [])\<rparr> in
             case read file of
               Inl e \<Rightarrow> (Inl e, w1)
             | Inr content \<Rightarrow>
                 (case tmp_write env (files w1) name content of
                    Some msg \<Rightarrow> (Inl (Exception msg), w1)
                  | None \<Rightarrow> (Inr name, w1\<lparr>files := (files w1)(name \<mapsto> content)\<rparr>))))"

text \<open>\<^verbatim>\<open>os.unlink(tmp_path)\<close>.\<close>

definition unlink :: "env \<Rightarrow> path \<Rightarrow> world \<Rightarrow> (exn + unit) \<times> world" where
  "unlink env p w =
     (let w0 = record_call (Call_unlink p) w in
      if files w0 p = None then (Inl (Exception (str ''FileNotFoundError'')), w0)
      else
        (case os_unlink env (files w0) p of
           Some msg \<Rightarrow> (Inl (Exception msg), w0)
         | None \<Rightarrow> (Inr (), w0\<lparr>files := (files w0)(p := None)\<rparr>)))"

text \<open>
  The body of the second \<^verbatim>\<open>try\<close> of \<^verbatim>\<open>chat_voice\<close>. A raise leaves the body at
  once: when \<^verbatim>\<open>transcribe_audio\<close> raises, the \<^verbatim>\<open>os.unlink\<close> of the next line is not run.
\<close>

definition voice_body :: "env \<Rightarrow> path \<Rightarrow> world \<Rightarrow> (exn + VoiceResponse) \<times> world" where
  "voice_body env tmp_path w =
     (case transcribe_audio env tmp_path w of
        (Inl e, w1) \<Rightarrow> (Inl e, w1)
      | (Inr transcript', w1) \<Rightarrow>
          (case unlink env tmp_path w1 of
             (Inl e, w2) \<Rightarrow> (Inl e, w2)
           | (Inr u, w2) \<Rightarrow>
               if transcript' = [] then
                 (Inr \<lparr>response = str ''I didn't catch that. Could you please repeat?'',
                       search_triggered = False, transcript = []\<rparr>, w2)
               else
                 (case process_query env transcript' w2 of
                    (Inl e, w3) \<Rightarrow> (Inl e, w3)
                  | (Inr result, w3) \<Rightarrow>
                      (Inr \<lparr>response = response result,
                            search_triggered = search_triggered result,
                            transcript = transcript'\<rparr>, w3))))"

text \<open>
  The handlers of the second \<^verbatim>\<open>try\<close>: \<^verbatim>\<open>except HTTPException: raise\<close>, then
  \<^verbatim>\<open>except Exception\<close>, which raises the 500.
\<close>

fun voice_handlers :: "exn \<Rightarrow> exn" where
  "voice_handlers (HTTPException status detail) = HTTPException status detail"
| "voice_handlers (Exception msg) = HTTPException 500 (str ''Internal server error'')"

abbreviation supported_suffixes :: "pystr list" where
  "supported_suffixes \<equiv> [str ''.wav'', str ''.mp3'', str ''.ogg'', str ''.flac'']"

definition chat_voice :: "env \<Rightarrow> UploadFile \<Rightarrow> world \<Rightarrow> (exn + VoiceResponse) \<times> world" where
  "chat_voice env file w =
     (if \<not> endswith_any (filename file) supported_suffixes
      then (Inl (HTTPException 400
                  (str ''Unsupported file format. Supported formats: WAV, MP3, OGG, FLAC'')), w)
      else
        (case save_upload env file w of
           (Inl e, w1) \<Rightarrow> (Inl (HTTPException 500 (str ''File upload failed'')), w1)
         | (Inr tmp_path, w1) \<Rightarrow>
             (case voice_body env tmp_path w1 of
                (Inl e, w2) \<Rightarrow> (Inl (voice_handlers e), w2)
              | (Inr v, w2) \<Rightarrow> (Inr v, w2))))"

text \<open>\<^verbatim>\<open>chat_text\<close>: no \<^verbatim>\<open>try\<close>; what \<^verbatim>\<open>process_query\<close> raises goes to the caller.\<close>

definition chat_text :: "env \<Rightarrow> pystr \<Rightarrow> world \<Rightarrow> (exn + VoiceResponse) \<times> world" where
  "chat_text env text w =
     (case process_query env text w of
        (Inl e, w1) \<Rightarrow> (Inl e, w1)
      | (Inr result, w1) \<Rightarrow>
          (Inr \<lparr>response = response result,
                search_triggered = search_triggered result,
                transcript = text\<rparr>, w1))"

subsection \<open>Test doubles\<close>

text \<open>
  Collaborators for the concrete runs below. The engine stub "hears" the bytes of
  the file as its text and fails on the file \<^verbatim>\<open>noise\<close>; the agent stub fails on
  \<^verbatim>\<open>boom\<close>, searches the web for \<^verbatim>\<open>weather\<close>, answers \<^verbatim>\<open>hush\<close> with an empty output,
  and otherwise uses a calculator and gives no output.
\<close>

definition stub_whisper :: "fs \<Rightarrow> path \<Rightarrow> exn + transcription" where
  "stub_whisper disk p =
     (case disk p of
        None \<Rightarrow> Inl (Exception (str ''RuntimeError''))
      | Some b \<Rightarrow>
          if b = ''noise'' then Inl (Exception (str ''RuntimeError''))
          else Inr \<lparr>text_key = Some (str b)\<rparr>)"

definition stub_agent :: "pystr \<Rightarrow> exn + agent_result" where
  "stub_agent q =
     (if q = str ''boom'' then Inl (Exception (str ''TimeoutError''))
      else if q = str ''weather'' then
        Inr \<lparr>output_text = Some (str ''Sunny''),
             intermediate_steps =
               Some [(\<lparr>tool = str ''WebSearch'', tool_input = q\<rparr>, str ''Sunny, 18 degrees'')]\<rparr>
      else if q = str ''hush'' then
        Inr \<lparr>output_text = Some [], intermediate_steps = None\<rparr>
      else
        Inr \<lparr>output_text = None,
             intermediate_steps =
               Some [(\<lparr>tool = str ''Calculator'', tool_input = q\<rparr>, str ''4'')]\<rparr>)"

definition stub_env :: env where
  "stub_env =
     \<lparr>whisper_model = Some stub_whisper,
      agent_executor = Some stub_agent,
      NamedTemporaryFile = (\<lambda>disk suffix. Inr (str ''/tmp/tmp0'' @ suffix)),
      tmp_write = (\<lambda>disk p content. None),
      os_unlink = (\<lambda>disk p. None)\<rparr>"

definition upload :: "string \<Rightarrow> string \<Rightarrow> UploadFile" where
  "upload name content = \<lparr>filename = str name, read = Inr content\<rparr>"

definition empty_world :: world where
  "empty_world = \<lparr>files = Map.empty, calls = []\<rparr>"

section \<open>Properties\<close>

subsection \<open>Strings, and the files a stage leaves\<close>

lemma strip_empty_iff: "strip s = [] \<longleftrightarrow> (\<forall>c \<in> set s. isspace c)"
proof
  assume "strip s = []"
  then have all: "\<forall>x \<in> set (dropWhile isspace s). isspace x"
    by (simp add: strip_def)
  have "dropWhile isspace s = []"
  proof (rule ccontr)
    assume ne: "dropWhile isspace s \<noteq> []"
    then have "\<not> isspace (hd (dropWhile isspace s))" by (rule hd_dropWhile)
    moreover have "hd (dropWhile isspace s) \<in> set (dropWhile isspace s)"
      using ne by simp
    ultimately show False using all by blast
  qed
  then show "\<forall>c \<in> set s. isspace c" by simp
next
  assume "\<forall>c \<in> set s. isspace c"
  then have e: "dropWhile isspace s = []" by simp
  show "strip s = []" unfolding strip_def e by simp
qed

lemma endswith_iff: "endswith s t \<longleftrightarrow> (\<exists>stem. s = stem @ t)"
proof
  assume "endswith s t"
  then have "s = take (length s - length t) s @ t"
    by (metis append_take_drop_id endswith_def)
  then show "\<exists>stem. s = stem @ t" ..
next
  assume "\<exists>stem. s = stem @ t"
  then show "endswith s t" by (auto simp: endswith_def)
qed

lemma files_transcribe_audio: "files (snd (transcribe_audio env p w)) = files w"
  by (simp add: transcribe_audio_def record_call_def Let_def split: option.splits sum.splits)

lemma files_process_query: "files (snd (process_query env q w)) = files w"
  by (simp add: process_query_def record_call_def Let_def split: option.splits sum.splits)

subsection \<open>The query router\<close>

lemma process_query_invoked:
  assumes "agent_executor env = Some agent" and "query \<noteq> []" and "agent query = Inr result"
  shows "process_query env query w =
           (Inr \<lparr>response = dict_get (output_text result) (str ''I couldn't process that request.''),
                 search_triggered =
                   list_ex (\<lambda>step. tool (fst step) = str ''WebSearch'')
                     (dict_get (intermediate_steps result) [])\<rparr>,
            record_call (Call_invoke query) (record_call (Call_process_query query) w))"
  using assms by (simp add: process_query_def Let_def)

text \<open>
  Claim C1. When the agent is ready, the query is not empty and the agent returns a
  result, \<^verbatim>\<open>process_query\<close> returns, and its \<open>search_triggered\<close> is true exactly when
  some step of the trace names the tool \<^verbatim>\<open>WebSearch\<close>; with no trace in the result,
  or a trace whose steps all name other tools, it is false.
\<close>

theorem search_triggered_iff_WebSearch:
  assumes ready: "agent_executor env = Some agent"
    and nonempty: "query \<noteq> []"
    and invoked: "agent query = Inr result"
  shows "\<exists>r. fst (process_query env query w) = Inr r \<and>
           (case intermediate_steps result of
              None \<Rightarrow> \<not> search_triggered r
            | Some steps \<Rightarrow>
                (search_triggered r \<longleftrightarrow>
                   (\<exists>step \<in> set steps. tool (fst step) = str ''WebSearch'')) \<and>
                ((\<forall>step \<in> set steps. tool (fst step) \<noteq> str ''WebSearch'') \<longrightarrow>
                   \<not> search_triggered r))"
proof -
  let ?r = "\<lparr>response = dict_get (output_text result) (str ''I couldn't process that request.''),
             search_triggered =
               list_ex (\<lambda>step. tool (fst step) = str ''WebSearch'')
                 (dict_get (intermediate_steps result) [])\<rparr>"
  have run: "process_query env query w =
      (Inr ?r, record_call (Call_invoke query) (record_call (Call_process_query query) w))"
    by (rule process_query_invoked [OF ready nonempty invoked])
  have "case intermediate_steps result of
          None \<Rightarrow> \<not> search_triggered ?r
        | Some steps \<Rightarrow>
            (search_triggered ?r \<longleftrightarrow>
               (\<exists>step \<in> set steps. tool (fst step) = str ''WebSearch'')) \<and>
            ((\<forall>step \<in> set steps. tool (fst step) \<noteq> str ''WebSearch'') \<longrightarrow>
               \<not> search_triggered ?r)"
  proof (cases "intermediate_steps result")
    case None
    then show ?thesis by (simp add: dict_get_def)
  next
    case (Some steps)
    have "search_triggered ?r \<longleftrightarrow> (\<exists>step \<in> set steps. tool (fst step) = str ''WebSearch'')"
      using Some by (simp add: dict_get_def list_ex_iff)
    then show ?thesis using Some by simp
  qed
  moreover have "fst (process_query env query w) = Inr ?r"
    by (simp only: run fst_conv)
  ultimately show ?thesis by blast
qed

theorem search_triggered_iff_WebSearch_witness:
  "agent_executor stub_env = Some stub_agent \<and> str ''weather'' \<noteq> [] \<and>
   stub_agent (str ''weather'') =
     Inr \<lparr>output_text = Some (str ''Sunny''),
          intermediate_steps =
            Some [(\<lparr>tool = str ''WebSearch'', tool_input = str ''weather''\<rparr>,
                   str ''Sunny, 18 degrees'')]\<rparr> \<and>
   fst (process_query stub_env (str ''weather'') empty_world) =
     Inr \<lparr>response = str ''Sunny'', search_triggered = True\<rparr>"
proof -
  have ready: "agent_executor stub_env = Some stub_agent"
    by (simp add: stub_env_def)
  have nonempty: "str ''weather'' \<noteq> []"
    by simp
  have invoked: "stub_agent (str ''weather'') =
      Inr \<lparr>output_text = Some (str ''Sunny''),
           intermediate_steps =
             Some [(\<lparr>tool = str ''WebSearch'', tool_input = str ''weather''\<rparr>,
                    str ''Sunny, 18 degrees'')]\<rparr>"
    by (simp add: stub_agent_def)
  have run: "fst (process_query stub_env (str ''weather'') empty_world) =
      Inr \<lparr>response = str ''Sunny'', search_triggered = True\<rparr>"
    using search_triggered_iff_WebSearch [OF ready nonempty invoked, of empty_world]
    by (simp add: process_query_def stub_env_def stub_agent_def dict_get_def)
  from ready nonempty invoked run show ?thesis by blast
qed

text \<open>
  Claim C2. When the agent is ready and raises on a non-empty query, whatever the
  fault, \<^verbatim>\<open>process_query\<close> does not raise: it returns the fixed apology with
  \<open>search_triggered\<close> false.
\<close>

theorem agent_fault_gives_apology:
  assumes ready: "agent_executor env = Some agent"
    and nonempty: "query \<noteq> []"
    and fault: "agent query = Inl e"
  shows "fst (process_query env query w) =
           Inr \<lparr>response = str ''I encountered an error processing your request.'',
                search_triggered = False\<rparr>"
  using assms by (simp add: process_query_def Let_def)

theorem agent_fault_gives_apology_witness:
  "agent_executor stub_env = Some stub_agent \<and> str ''boom'' \<noteq> [] \<and>
   stub_agent (str ''boom'') = Inl (Exception (str ''TimeoutError'')) \<and>
   fst (process_query stub_env (str ''boom'') empty_world) =
     Inr \<lparr>response = str ''I encountered an error processing your request.'',
          search_triggered = False\<rparr>"
proof -
  have ready: "agent_executor stub_env = Some stub_agent"
    by (simp add: stub_env_def)
  have nonempty: "str ''boom'' \<noteq> []"
    by simp
  have fault: "stub_agent (str ''boom'') = Inl (Exception (str ''TimeoutError''))"
    by (simp add: stub_agent_def)
  show ?thesis
    using ready nonempty fault
      agent_fault_gives_apology [OF ready nonempty fault, of empty_world]
    by blast
qed

subsection \<open>The stages of the voice endpoint, one outcome at a time\<close>

lemma save_upload_Inr:
  assumes "save_upload env file w = (Inr p, w1)"
  shows "files w p = None"
    and "\<exists>content. read file = Inr content \<and> files w1 = (files w)(p \<mapsto> content)"
    and "calls w1 = calls w @ [Call_NamedTemporaryFile (snd (splitext (filename file)))]"
  using assms
  by (auto simp: save_upload_def record_call_def Let_def
      split: sum.splits option.splits if_splits)

lemma save_upload_calls:
  "calls (snd (save_upload env file w)) =
     calls w @ [Call_NamedTemporaryFile (snd (splitext (filename file)))]"
  by (simp add: save_upload_def record_call_def Let_def split: sum.splits option.splits)

lemma chat_voice_rejected:
  assumes "\<not> endswith_any (filename file) supported_suffixes"
  shows "chat_voice env file w =
           (Inl (HTTPException 400
                  (str ''Unsupported file format. Supported formats: WAV, MP3, OGG, FLAC'')), w)"
  using assms by (simp add: chat_voice_def)

lemma chat_voice_stored:
  assumes "endswith_any (filename file) supported_suffixes"
    and "save_upload env file w = (Inr p, w1)"
  shows "chat_voice env file w =
           (case voice_body env p w1 of
              (Inl e, w2) \<Rightarrow> (Inl (voice_handlers e), w2)
            | (Inr v, w2) \<Rightarrow> (Inr v, w2))"
  using assms by (simp add: chat_voice_def)

lemma chat_voice_not_stored:
  assumes "endswith_any (filename file) supported_suffixes"
    and "save_upload env file w = (Inl e, w1)"
  shows "chat_voice env file w = (Inl (HTTPException 500 (str ''File upload failed'')), w1)"
  using assms by (simp add: chat_voice_def)

lemma transcribe_audio_not_ready:
  assumes "whisper_model env = None"
  shows "transcribe_audio env p w =
      (Inl (HTTPException 503 (str ''Models not initialized yet'')),
       record_call (Call_transcribe_audio p) w)"
  using assms unfolding transcribe_audio_def Let_def by (simp only: option.case)

lemma transcribe_audio_fault:
  assumes "whisper_model env = Some model" and "model (files w) p = Inl e"
  shows "transcribe_audio env p w =
      (Inl (HTTPException 500 (str ''Audio processing failed'')),
       record_call (Call_transcribe p) (record_call (Call_transcribe_audio p) w))"
  using assms by (simp add: transcribe_audio_def Let_def record_call_def)

lemma transcribe_audio_text:
  assumes "whisper_model env = Some model" and "model (files w) p = Inr result"
  shows "transcribe_audio env p w =
      (Inr (strip (dict_get (text_key result) [])),
       record_call (Call_transcribe p) (record_call (Call_transcribe_audio p) w))"
  using assms by (simp add: transcribe_audio_def Let_def record_call_def)

lemma unlink_done:
  assumes "files w p \<noteq> None" and "os_unlink env (files w) p = None"
  shows "unlink env p w = (Inr (), (record_call (Call_unlink p) w)\<lparr>files := (files w)(p := None)\<rparr>)"
  using assms by (auto simp: unlink_def Let_def record_call_def)

lemma unlink_fault:
  assumes "files w p \<noteq> None" and "os_unlink env (files w) p = Some msg"
  shows "unlink env p w = (Inl (Exception msg), record_call (Call_unlink p) w)"
  using assms by (auto simp: unlink_def Let_def record_call_def)

lemma process_query_not_ready:
  assumes "agent_executor env = None"
  shows "process_query env query w =
      (Inl (HTTPException 503 (str ''Models not initialized yet'')),
       record_call (Call_process_query query) w)"
  using assms unfolding process_query_def Let_def by (simp only: option.case)



subsection \<open>The empty transcript\<close>

lemma chat_voice_blank:
  assumes fmt: "endswith_any (filename file) supported_suffixes"
    and stored: "save_upload env file w = (Inr p, w1)"
    and ready: "whisper_model env = Some model"
    and heard: "model (files w1) p = Inr result"
    and blank: "\<forall>c \<in> set (dict_get (text_key result) []). isspace c"
    and removed: "os_unlink env (files w1) p = None"
  shows "chat_voice env file w =
           (Inr \<lparr>response = str ''I didn't catch that. Could you please repeat?'',
                 search_triggered = False, transcript = []\<rparr>,
            (record_call (Call_unlink p)
              (record_call (Call_transcribe p)
                (record_call (Call_transcribe_audio p) w1)))\<lparr>files := (files w1)(p := None)\<rparr>)"
proof -
  let ?w2 = "record_call (Call_transcribe p) (record_call (Call_transcribe_audio p) w1)"
  have same: "files ?w2 = files w1"
    by (simp add: record_call_def)
  have there: "files ?w2 p \<noteq> None"
    using save_upload_Inr(2) [OF stored] by (auto simp: same)
  have removed': "os_unlink env (files ?w2) p = None"
    unfolding same by (rule removed)
  have "strip (dict_get (text_key result) []) = []"
    using blank by (simp only: strip_empty_iff)
  then have t: "transcribe_audio env p w1 = (Inr [], ?w2)"
    using transcribe_audio_text [OF ready heard] by simp
  have u: "unlink env p ?w2 =
      (Inr (), (record_call (Call_unlink p) ?w2)\<lparr>files := (files ?w2)(p := None)\<rparr>)"
    by (rule unlink_done [OF there removed'])
  have "voice_body env p w1 =
      (Inr \<lparr>response = str ''I didn't catch that. Could you please repeat?'',
            search_triggered = False, transcript = []\<rparr>,
       (record_call (Call_unlink p) ?w2)\<lparr>files := (files ?w2)(p := None)\<rparr>)"
    by (simp add: voice_body_def t u)
  then show ?thesis
    by (simp add: chat_voice_stored [OF fmt stored] same)
qed

lemma chat_voice_blank_fault:
  assumes fmt: "endswith_any (filename file) supported_suffixes"
    and stored: "save_upload env file w = (Inr p, w1)"
    and ready: "whisper_model env = Some model"
    and heard: "model (files w1) p = Inr result"
    and blank: "\<forall>c \<in> set (dict_get (text_key result) []). isspace c"
    and fault: "os_unlink env (files w1) p = Some msg"
  shows "chat_voice env file w =
           (Inl (HTTPException 500 (str ''Internal server error'')),
            record_call (Call_unlink p)
              (record_call (Call_transcribe p)
                (record_call (Call_transcribe_audio p) w1)))"
proof -
  let ?w2 = "record_call (Call_transcribe p) (record_call (Call_transcribe_audio p) w1)"
  have same: "files ?w2 = files w1"
    by (simp add: record_call_def)
  have there: "files ?w2 p \<noteq> None"
    using save_upload_Inr(2) [OF stored] by (auto simp: same)
  have fault': "os_unlink env (files ?w2) p = Some msg"
    unfolding same by (rule fault)
  have "strip (dict_get (text_key result) []) = []"
    using blank by (simp only: strip_empty_iff)
  then have t: "transcribe_audio env p w1 = (Inr [], ?w2)"
    using transcribe_audio_text [OF ready heard] by simp
  have u: "unlink env p ?w2 = (Inl (Exception msg), record_call (Call_unlink p) ?w2)"
    by (rule unlink_fault [OF there fault'])
  have "voice_body env p w1 = (Inl (Exception msg), record_call (Call_unlink p) ?w2)"
    by (simp add: voice_body_def t u)
  then show ?thesis
    by (simp add: chat_voice_stored [OF fmt stored])
qed

lemma save_upload_ignores_agent:
  "save_upload (env\<lparr>agent_executor := a\<rparr>) file w = save_upload env file w"
  by (simp add: save_upload_def Let_def split: sum.splits option.splits)

lemma stub_save:
  "save_upload (stub_env\<lparr>whisper_model := m, agent_executor := a\<rparr>)
       (upload ''clip.wav'' content) empty_world =
     (Inr (str ''/tmp/tmp0.wav''),
      \<lparr>files = [str ''/tmp/tmp0.wav'' \<mapsto> content],
       calls = [Call_NamedTemporaryFile (str ''.wav'')]\<rparr>)"
  by (simp add: save_upload_def stub_env_def upload_def empty_world_def splitext_def
      record_call_def Let_def)

lemma stub_env_fields:
  "stub_env\<lparr>whisper_model := whisper_model stub_env, agent_executor := agent_executor stub_env\<rparr>
     = stub_env"
  by simp

lemmas stub_save_blank =
  stub_save [where m = "whisper_model stub_env" and a = "agent_executor stub_env"
    and content = "''  ''", unfolded stub_env_fields]

lemma stub_save_unlink_fault:
  "save_upload (stub_env\<lparr>agent_executor := a, os_unlink := u\<rparr>)
       (upload ''clip.wav'' content) empty_world =
     (Inr (str ''/tmp/tmp0.wav''),
      \<lparr>files = [str ''/tmp/tmp0.wav'' \<mapsto> content],
       calls = [Call_NamedTemporaryFile (str ''.wav'')]\<rparr>)"
  by (simp add: save_upload_def stub_env_def upload_def empty_world_def splitext_def
      record_call_def Let_def)

lemma stub_blank_facts:
  "endswith_any (filename (upload ''clip.wav'' ''  '')) supported_suffixes"
  "stub_whisper
     (files \<lparr>files = [str ''/tmp/tmp0.wav'' \<mapsto> ''  ''],
             calls = [Call_NamedTemporaryFile (str ''.wav'')]\<rparr>) (str ''/tmp/tmp0.wav'') =
     Inr \<lparr>text_key = Some (str ''  '')\<rparr>"
  "\<forall>c \<in> set (dict_get (text_key \<lparr>text_key = Some (str ''  '')\<rparr>) []). isspace c"
  by (simp_all add: endswith_any_def endswith_def upload_def stub_whisper_def dict_get_def
      isspace_def)

text \<open>
  Claim C3 says a request whose transcription gives only whitespace returns exactly
  the clarification result. \<^verbatim>\<open>os.unlink\<close> runs before the transcript is tested: in
  this run the transcript is empty, \<^verbatim>\<open>os.unlink\<close> raises, and the request ends with
  the 500 \<^verbatim>\<open>Internal server error\<close>.
\<close>

theorem blank_transcript_unlink_fault:
  "fst (transcribe_audio (stub_env\<lparr>os_unlink := \<lambda>disk p. Some (str ''PermissionError'')\<rparr>)
         (str ''/tmp/tmp0.wav'')
         \<lparr>files = [str ''/tmp/tmp0.wav'' \<mapsto> ''  ''],
          calls = [Call_NamedTemporaryFile (str ''.wav'')]\<rparr>) = Inr [] \<and>
   fst (chat_voice (stub_env\<lparr>os_unlink := \<lambda>disk p. Some (str ''PermissionError'')\<rparr>)
         (upload ''clip.wav'' ''  '') empty_world) =
     Inl (HTTPException 500 (str ''Internal server error''))"
proof -
  let ?env = "stub_env\<lparr>os_unlink := \<lambda>disk p. Some (str ''PermissionError'')\<rparr>"
  let ?w1 = "\<lparr>files = [str ''/tmp/tmp0.wav'' \<mapsto> ''  ''],
              calls = [Call_NamedTemporaryFile (str ''.wav'')]\<rparr>"
  have stored: "save_upload ?env (upload ''clip.wav'' ''  '') empty_world =
      (Inr (str ''/tmp/tmp0.wav''), ?w1)"
    using stub_save_unlink_fault [where a = "agent_executor stub_env"] by simp
  have ready: "whisper_model ?env = Some stub_whisper"
    by (simp add: stub_env_def)
  have fault: "os_unlink ?env (files ?w1) (str ''/tmp/tmp0.wav'') = Some (str ''PermissionError'')"
    by simp
  have "fst (transcribe_audio ?env (str ''/tmp/tmp0.wav'') ?w1) = Inr []"
    by (simp add: transcribe_audio_def stub_env_def stub_whisper_def record_call_def Let_def
        dict_get_def strip_def isspace_def)
  moreover have "fst (chat_voice ?env (upload ''clip.wav'' ''  '') empty_world) =
      Inl (HTTPException 500 (str ''Internal server error''))"
    using chat_voice_blank_fault
      [OF stub_blank_facts(1) stored ready stub_blank_facts(2) stub_blank_facts(3) fault]
    by simp
  ultimately show ?thesis by simp
qed

text \<open>
  Claim C3, amended. A voice request with a supported file name, whose upload is
  stored and whose transcription gives no text or only whitespace (which
  \<^verbatim>\<open>transcribe_audio\<close> trims to the empty string), makes the four calls listed and no
  other: \<^verbatim>\<open>process_query\<close> is not called, and neither is the agent. When the
  \<^verbatim>\<open>os.unlink\<close> of the temp file does not raise, the request returns exactly the empty
  transcript, the clarification message and \<open>search_triggered\<close> false; when it
  raises, the request ends with the 500 \<^verbatim>\<open>Internal server error\<close>.
\<close>

theorem empty_transcript_never_routed:
  assumes fmt: "endswith_any (filename file) supported_suffixes"
    and stored: "save_upload env file w = (Inr p, w1)"
    and ready: "whisper_model env = Some model"
    and heard: "model (files w1) p = Inr result"
    and blank: "\<forall>c \<in> set (dict_get (text_key result) []). isspace c"
  shows "calls (snd (chat_voice env file w)) =
           calls w @ [Call_NamedTemporaryFile (snd (splitext (filename file))),
                      Call_transcribe_audio p, Call_transcribe p, Call_unlink p] \<and>
         (os_unlink env (files w1) p = None \<longrightarrow>
            fst (chat_voice env file w) =
              Inr \<lparr>response = str ''I didn't catch that. Could you please repeat?'',
                   search_triggered = False, transcript = []\<rparr>) \<and>
         (\<forall>msg. os_unlink env (files w1) p = Some msg \<longrightarrow>
            fst (chat_voice env file w) =
              Inl (HTTPException 500 (str ''Internal server error'')))"
proof (cases "os_unlink env (files w1) p")
  case None
  show ?thesis
    unfolding chat_voice_blank [OF fmt stored ready heard blank None]
    using save_upload_Inr(3) [OF stored] None by (simp add: record_call_def)
next
  case (Some msg)
  show ?thesis
    unfolding chat_voice_blank_fault [OF fmt stored ready heard blank Some]
    using save_upload_Inr(3) [OF stored] Some by (simp add: record_call_def)
qed

theorem empty_transcript_never_routed_witness:
  "endswith_any (filename (upload ''clip.wav'' ''  '')) supported_suffixes \<and>
   whisper_model stub_env = Some stub_whisper \<and>
   stub_whisper [str ''/tmp/tmp0.wav'' \<mapsto> ''  ''] (str ''/tmp/tmp0.wav'') =
     Inr \<lparr>text_key = Some (str ''  '')\<rparr> \<and>
   os_unlink stub_env [str ''/tmp/tmp0.wav'' \<mapsto> ''  ''] (str ''/tmp/tmp0.wav'') = None \<and>
   fst (chat_voice stub_env (upload ''clip.wav'' ''  '') empty_world) =
     Inr \<lparr>response = str ''I didn't catch that. Could you please repeat?'',
          search_triggered = False, transcript = []\<rparr> \<and>
   calls (snd (chat_voice stub_env (upload ''clip.wav'' ''  '') empty_world)) =
     [Call_NamedTemporaryFile (str ''.wav''), Call_transcribe_audio (str ''/tmp/tmp0.wav''),
      Call_transcribe (str ''/tmp/tmp0.wav''), Call_unlink (str ''/tmp/tmp0.wav'')]"
proof -
  let ?w1 = "\<lparr>files = [str ''/tmp/tmp0.wav'' \<mapsto> ''  ''],
              calls = [Call_NamedTemporaryFile (str ''.wav'')]\<rparr>"
  have ready: "whisper_model stub_env = Some stub_whisper"
    by (simp add: stub_env_def)
  have removed: "os_unlink stub_env (files ?w1) (str ''/tmp/tmp0.wav'') = None"
    by (simp add: stub_env_def)
  note run = empty_transcript_never_routed
    [OF stub_blank_facts(1) stub_save_blank ready stub_blank_facts(2) stub_blank_facts(3)]
  from run have made: "calls (snd (chat_voice stub_env (upload ''clip.wav'' ''  '') empty_world)) =
      calls empty_world @
        [Call_NamedTemporaryFile (snd (splitext (filename (upload ''clip.wav'' ''  '')))),
         Call_transcribe_audio (str ''/tmp/tmp0.wav''), Call_transcribe (str ''/tmp/tmp0.wav''),
         Call_unlink (str ''/tmp/tmp0.wav'')]"
    by (rule conjunct1)
  from run removed have clar: "fst (chat_voice stub_env (upload ''clip.wav'' ''  '') empty_world) =
      Inr \<lparr>response = str ''I didn't catch that. Could you please repeat?'',
           search_triggered = False, transcript = []\<rparr>"
    by blast
  show ?thesis
    using stub_blank_facts(1,2) ready removed made clar
    by (simp add: empty_world_def upload_def splitext_def)
qed

text \<open>
  Claim C10 says that with an empty transcript the clarification is returned also
  while the agent is not initialised, transcription readiness being all the path
  requires. In this run the agent is not initialised, the transcript is empty,
  \<^verbatim>\<open>os.unlink\<close> raises, and the request ends with the 500.
\<close>

theorem blank_transcript_unlink_fault_without_agent:
  "agent_executor (stub_env\<lparr>agent_executor := None,
       os_unlink := \<lambda>disk p. Some (str ''PermissionError'')\<rparr>) = None \<and>
   fst (transcribe_audio (stub_env\<lparr>agent_executor := None,
         os_unlink := \<lambda>disk p. Some (str ''PermissionError'')\<rparr>)
         (str ''/tmp/tmp0.wav'')
         \<lparr>files = [str ''/tmp/tmp0.wav'' \<mapsto> ''  ''],
          calls = [Call_NamedTemporaryFile (str ''.wav'')]\<rparr>) = Inr [] \<and>
   fst (chat_voice (stub_env\<lparr>agent_executor := None,
         os_unlink := \<lambda>disk p. Some (str ''PermissionError'')\<rparr>)
         (upload ''clip.wav'' ''  '') empty_world) =
     Inl (HTTPException 500 (str ''Internal server error''))"
proof -
  let ?env = "stub_env\<lparr>agent_executor := None,
      os_unlink := \<lambda>disk p. Some (str ''PermissionError'')\<rparr>"
  let ?w1 = "\<lparr>files = [str ''/tmp/tmp0.wav'' \<mapsto> ''  ''],
              calls = [Call_NamedTemporaryFile (str ''.wav'')]\<rparr>"
  have stored: "save_upload ?env (upload ''clip.wav'' ''  '') empty_world =
      (Inr (str ''/tmp/tmp0.wav''), ?w1)"
    by (rule stub_save_unlink_fault)
  have ready: "whisper_model ?env = Some stub_whisper"
    by (simp add: stub_env_def)
  have fault: "os_unlink ?env (files ?w1) (str ''/tmp/tmp0.wav'') = Some (str ''PermissionError'')"
    by simp
  have "fst (transcribe_audio ?env (str ''/tmp/tmp0.wav'') ?w1) = Inr []"
    by (simp add: transcribe_audio_def stub_env_def stub_whisper_def record_call_def Let_def
        dict_get_def strip_def isspace_def)
  moreover have "fst (chat_voice ?env (upload ''clip.wav'' ''  '') empty_world) =
      Inl (HTTPException 500 (str ''Internal server error''))"
    using chat_voice_blank_fault
      [OF stub_blank_facts(1) stored ready stub_blank_facts(2) stub_blank_facts(3) fault]
    by simp
  ultimately show ?thesis by simp
qed

text \<open>
  Claim C10, amended. On the path of the empty transcript the outcome does not
  depend on the agent: it is the same whatever \<^verbatim>\<open>agent_executor\<close> is, since the check
  of \<^verbatim>\<open>agent_executor\<close> is inside \<^verbatim>\<open>process_query\<close>, which this path does not call and
  which, while the agent is not initialised, raises 503 for every query. So while
  the agent is not initialised the clarification is returned, when the \<^verbatim>\<open>os.unlink\<close>
  of the temp file does not raise.
\<close>

theorem clarification_needs_no_agent:
  assumes fmt: "endswith_any (filename file) supported_suffixes"
    and stored: "save_upload env file w = (Inr p, w1)"
    and ready: "whisper_model env = Some model"
    and heard: "model (files w1) p = Inr result"
    and blank: "\<forall>c \<in> set (dict_get (text_key result) []). isspace c"
  shows "(\<forall>a. fst (chat_voice (env\<lparr>agent_executor := a\<rparr>) file w) =
              fst (chat_voice env file w)) \<and>
         (agent_executor env = None \<and> os_unlink env (files w1) p = None \<longrightarrow>
            fst (chat_voice env file w) =
              Inr \<lparr>response = str ''I didn't catch that. Could you please repeat?'',
                   search_triggered = False, transcript = []\<rparr>) \<and>
         (agent_executor env = None \<longrightarrow>
            fst (process_query env query w') =
              Inl (HTTPException 503 (str ''Models not initialized yet'')))"
proof (intro conjI allI impI)
  fix a
  let ?env = "env\<lparr>agent_executor := a\<rparr>"
  have stored': "save_upload ?env file w = (Inr p, w1)"
    using stored by (simp only: save_upload_ignores_agent)
  have ready': "whisper_model ?env = Some model"
    using ready by simp
  show "fst (chat_voice ?env file w) = fst (chat_voice env file w)"
  proof (cases "os_unlink env (files w1) p")
    case None
    then have "os_unlink ?env (files w1) p = None" by simp
    from chat_voice_blank [OF fmt stored' ready' heard blank this]
      chat_voice_blank [OF fmt stored ready heard blank None]
    show ?thesis by simp
  next
    case (Some msg)
    then have "os_unlink ?env (files w1) p = Some msg" by simp
    from chat_voice_blank_fault [OF fmt stored' ready' heard blank this]
      chat_voice_blank_fault [OF fmt stored ready heard blank Some]
    show ?thesis by simp
  qed
next
  assume "agent_executor env = None \<and> os_unlink env (files w1) p = None"
  then have "os_unlink env (files w1) p = None" by simp
  from chat_voice_blank [OF fmt stored ready heard blank this]
  show "fst (chat_voice env file w) =
      Inr \<lparr>response = str ''I didn't catch that. Could you please repeat?'',
           search_triggered = False, transcript = []\<rparr>"
    by simp
next
  assume "agent_executor env = None"
  then show "fst (process_query env query w') =
      Inl (HTTPException 503 (str ''Models not initialized yet''))"
    by (simp only: process_query_not_ready fst_conv)
qed

theorem clarification_needs_no_agent_witness:
  "agent_executor (stub_env\<lparr>agent_executor := None\<rparr>) = None \<and>
   whisper_model (stub_env\<lparr>agent_executor := None\<rparr>) = Some stub_whisper \<and>
   os_unlink (stub_env\<lparr>agent_executor := None\<rparr>) [str ''/tmp/tmp0.wav'' \<mapsto> ''  '']
     (str ''/tmp/tmp0.wav'') = None \<and>
   fst (chat_voice (stub_env\<lparr>agent_executor := None\<rparr>) (upload ''clip.wav'' ''  '') empty_world) =
     Inr \<lparr>response = str ''I didn't catch that. Could you please repeat?'',
          search_triggered = False, transcript = []\<rparr> \<and>
   fst (chat_voice (stub_env\<lparr>agent_executor := None\<rparr>) (upload ''clip.wav'' ''  '') empty_world) =
     fst (chat_voice stub_env (upload ''clip.wav'' ''  '') empty_world) \<and>
   fst (process_query (stub_env\<lparr>agent_executor := None\<rparr>) (str ''weather'') empty_world) =
     Inl (HTTPException 503 (str ''Models not initialized yet''))"
proof -
  let ?env = "stub_env\<lparr>agent_executor := None\<rparr>"
  let ?w1 = "\<lparr>files = [str ''/tmp/tmp0.wav'' \<mapsto> ''  ''],
              calls = [Call_NamedTemporaryFile (str ''.wav'')]\<rparr>"
  have unready: "agent_executor ?env = None"
    by simp
  have stored: "save_upload ?env (upload ''clip.wav'' ''  '') empty_world =
      (Inr (str ''/tmp/tmp0.wav''), ?w1)"
    using stub_save [where m = "whisper_model stub_env" and a = None and content = "''  ''"]
    by simp
  have ready: "whisper_model ?env = Some stub_whisper"
    by (simp add: stub_env_def)
  have removed: "os_unlink ?env (files ?w1) (str ''/tmp/tmp0.wav'') = None"
    by (simp add: stub_env_def)
  have warm: "?env\<lparr>agent_executor := Some stub_agent\<rparr> = stub_env"
    by (simp add: stub_env_def)
  from clarification_needs_no_agent
    [OF stub_blank_facts(1) stored ready stub_blank_facts(2) stub_blank_facts(3),
      of "str ''weather''" empty_world]
  have same: "fst (chat_voice (?env\<lparr>agent_executor := Some stub_agent\<rparr>)
        (upload ''clip.wav'' ''  '') empty_world) =
      fst (chat_voice ?env (upload ''clip.wav'' ''  '') empty_world)"
    and clar: "fst (chat_voice ?env (upload ''clip.wav'' ''  '') empty_world) =
      Inr \<lparr>response = str ''I didn't catch that. Could you please repeat?'',
           search_triggered = False, transcript = []\<rparr>"
    and raised: "fst (process_query ?env (str ''weather'') empty_world) =
      Inl (HTTPException 503 (str ''Models not initialized yet''))"
    using unready removed by blast+
  from same have same': "fst (chat_voice ?env (upload ''clip.wav'' ''  '') empty_world) =
      fst (chat_voice stub_env (upload ''clip.wav'' ''  '') empty_world)"
    unfolding warm by (rule sym)
  from unready ready removed clar same' raised show ?thesis by simp
qed

subsection \<open>Requests before initialisation\<close>

text \<open>
  Claim C8. While the engine is not initialised \<^verbatim>\<open>transcribe_audio\<close> raises 503,
  and while the agent is not initialised \<^verbatim>\<open>process_query\<close> raises 503; the text
  endpoint passes the latter on, and the voice endpoint, once the upload is stored,
  passes the former on.
\<close>

theorem not_ready_gives_503:
  "(whisper_model env = None \<longrightarrow>
      fst (transcribe_audio env file_path w) =
        Inl (HTTPException 503 (str ''Models not initialized yet''))) \<and>
   (agent_executor env = None \<longrightarrow>
      fst (process_query env query w) =
        Inl (HTTPException 503 (str ''Models not initialized yet'')) \<and>
      fst (chat_text env query w) =
        Inl (HTTPException 503 (str ''Models not initialized yet''))) \<and>
   (whisper_model env = None \<and> endswith_any (filename file) supported_suffixes \<and>
    save_upload env file w = (Inr p, w1) \<longrightarrow>
      fst (chat_voice env file w) =
        Inl (HTTPException 503 (str ''Models not initialized yet'')))"
proof (intro conjI impI)
  assume "whisper_model env = None"
  then show "fst (transcribe_audio env file_path w) =
      Inl (HTTPException 503 (str ''Models not initialized yet''))"
    by (simp only: transcribe_audio_not_ready fst_conv)
next
  assume "agent_executor env = None"
  then show "fst (process_query env query w) =
      Inl (HTTPException 503 (str ''Models not initialized yet''))"
    by (simp only: process_query_not_ready fst_conv)
next
  assume "agent_executor env = None"
  then show "fst (chat_text env query w) =
      Inl (HTTPException 503 (str ''Models not initialized yet''))"
    by (simp add: chat_text_def process_query_not_ready)
next
  assume a: "whisper_model env = None \<and> endswith_any (filename file) supported_suffixes \<and>
    save_upload env file w = (Inr p, w1)"
  then have "voice_body env p w1 =
      (Inl (HTTPException 503 (str ''Models not initialized yet'')),
       record_call (Call_transcribe_audio p) w1)"
    by (simp add: voice_body_def transcribe_audio_not_ready)
  with a show "fst (chat_voice env file w) =
      Inl (HTTPException 503 (str ''Models not initialized yet''))"
    by (simp add: chat_voice_stored)
qed

theorem not_ready_gives_503_witness:
  "whisper_model (stub_env\<lparr>whisper_model := None, agent_executor := None\<rparr>) = None \<and>
   agent_executor (stub_env\<lparr>whisper_model := None, agent_executor := None\<rparr>) = None \<and>
   fst (transcribe_audio (stub_env\<lparr>whisper_model := None, agent_executor := None\<rparr>)
         (str ''/tmp/tmp0.wav'') empty_world) =
     Inl (HTTPException 503 (str ''Models not initialized yet'')) \<and>
   fst (process_query (stub_env\<lparr>whisper_model := None, agent_executor := None\<rparr>)
         (str ''weather'') empty_world) =
     Inl (HTTPException 503 (str ''Models not initialized yet'')) \<and>
   fst (chat_text (stub_env\<lparr>whisper_model := None, agent_executor := None\<rparr>)
         (str ''weather'') empty_world) =
     Inl (HTTPException 503 (str ''Models not initialized yet'')) \<and>
   fst (chat_voice (stub_env\<lparr>whisper_model := None, agent_executor := None\<rparr>)
         (upload ''clip.wav'' ''weather'') empty_world) =
     Inl (HTTPException 503 (str ''Models not initialized yet''))"
proof -
  let ?env = "stub_env\<lparr>whisper_model := None, agent_executor := None\<rparr>"
  have cold: "whisper_model ?env = None" "agent_executor ?env = None"
    by simp_all
  have fmt: "endswith_any (filename (upload ''clip.wav'' ''weather'')) supported_suffixes"
    by (simp add: endswith_any_def endswith_def upload_def)
  note stored = stub_save [where m = None and a = None and content = "''weather''"]
  show ?thesis
    using cold fmt stored
      not_ready_gives_503 [of ?env "str ''/tmp/tmp0.wav''" empty_world "str ''weather''"
        "upload ''clip.wav'' ''weather''" "str ''/tmp/tmp0.wav''"
        "\<lparr>files = [str ''/tmp/tmp0.wav'' \<mapsto> ''weather''],
          calls = [Call_NamedTemporaryFile (str ''.wav'')]\<rparr>"]
    by simp
qed

subsection \<open>What the voice endpoint can raise, and where it starts\<close>

lemma transcribe_audio_errors:
  assumes "fst (transcribe_audio env p w) = Inl e"
  shows "e = HTTPException 503 (str ''Models not initialized yet'') \<or>
         e = HTTPException 500 (str ''Audio processing failed'')"
  using assms
  by (auto simp: transcribe_audio_def Let_def split: option.splits sum.splits)

lemma process_query_errors:
  assumes "fst (process_query env q w) = Inl e"
  shows "agent_executor env = None \<and> e = HTTPException 503 (str ''Models not initialized yet'')"
  using assms
  by (auto simp: process_query_def Let_def split: option.splits sum.splits if_splits)

lemma unlink_errors:
  assumes "fst (unlink env p w) = Inl e"
  shows "\<exists>msg. e = Exception msg"
  using assms
  by (auto simp: unlink_def Let_def split: option.splits if_splits)

lemma voice_body_errors:
  assumes "fst (voice_body env p w) = Inl e"
  shows "voice_handlers e = HTTPException 503 (str ''Models not initialized yet'') \<or>
         voice_handlers e = HTTPException 500 (str ''Audio processing failed'') \<or>
         voice_handlers e = HTTPException 500 (str ''Internal server error'')"
proof (cases "transcribe_audio env p w")
  case (Pair r1 w1)
  show ?thesis
  proof (cases r1)
    case (Inl e1)
    with Pair assms have "e = e1" by (simp add: voice_body_def)
    moreover have "fst (transcribe_audio env p w) = Inl e1" using Pair Inl by simp
    ultimately show ?thesis using transcribe_audio_errors by fastforce
  next
    case (Inr t)
    show ?thesis
    proof (cases "unlink env p w1")
      case u: (Pair r2 w2)
      show ?thesis
      proof (cases r2)
        case (Inl e2)
        with Pair Inr u assms have "e = e2" by (simp add: voice_body_def)
        moreover have "fst (unlink env p w1) = Inl e2" using u Inl by simp
        ultimately show ?thesis using unlink_errors by fastforce
      next
        case r2: (Inr x)
        have "t \<noteq> []" "fst (process_query env t w2) = Inl e"
          using Pair Inr u r2 assms
          by (auto simp: voice_body_def split: if_splits prod.splits sum.splits)
        then show ?thesis using process_query_errors by fastforce
      qed
    qed
  qed
qed

lemma chat_voice_errors:
  assumes "fst (chat_voice env file w) = Inl e"
  shows "e = HTTPException 400
               (str ''Unsupported file format. Supported formats: WAV, MP3, OGG, FLAC'') \<and>
           \<not> endswith_any (filename file) supported_suffixes \<or>
         endswith_any (filename file) supported_suffixes \<and>
          (e = HTTPException 500 (str ''File upload failed'') \<or>
           e = HTTPException 503 (str ''Models not initialized yet'') \<or>
           e = HTTPException 500 (str ''Audio processing failed'') \<or>
           e = HTTPException 500 (str ''Internal server error''))"
proof (cases "endswith_any (filename file) supported_suffixes")
  case False
  then show ?thesis using assms by (simp add: chat_voice_rejected)
next
  case True
  show ?thesis
  proof (cases "save_upload env file w")
    case (Pair r1 w1)
    show ?thesis
    proof (cases r1)
      case (Inl e1)
      then show ?thesis
        using assms True Pair by (simp add: chat_voice_not_stored)
    next
      case (Inr p)
      then have run: "chat_voice env file w =
          (case voice_body env p w1 of
             (Inl e, w2) \<Rightarrow> (Inl (voice_handlers e), w2)
           | (Inr v, w2) \<Rightarrow> (Inr v, w2))"
        using True Pair by (simp add: chat_voice_stored)
      obtain r2 w2 where vb: "voice_body env p w1 = (r2, w2)" by (cases "voice_body env p w1")
      show ?thesis
      proof (cases r2)
        case (Inl e2)
        then have "e = voice_handlers e2" using assms run vb by simp
        moreover have "fst (voice_body env p w1) = Inl e2" using vb Inl by simp
        ultimately show ?thesis using voice_body_errors True by fastforce
      next
        case (Inr v)
        then show ?thesis using assms run vb by simp
      qed
    qed
  qed
qed


lemma calls_transcribe_audio: "\<exists>cs. calls (snd (transcribe_audio env p w)) = calls w @ cs"
  by (simp add: transcribe_audio_def record_call_def Let_def split: option.splits sum.splits)

lemma calls_process_query: "\<exists>cs. calls (snd (process_query env q w)) = calls w @ cs"
  by (simp add: process_query_def record_call_def Let_def split: option.splits sum.splits)

lemma calls_unlink: "\<exists>cs. calls (snd (unlink env p w)) = calls w @ cs"
  by (simp add: unlink_def record_call_def Let_def split: option.splits)

lemma calls_voice_body: "\<exists>cs. calls (snd (voice_body env p w)) = calls w @ cs"
proof -
  obtain r1 w1 where t: "transcribe_audio env p w = (r1, w1)"
    by (cases "transcribe_audio env p w")
  obtain c1 where c1: "calls w1 = calls w @ c1"
    using calls_transcribe_audio [of env p w] t by auto
  obtain r2 w2 where u: "unlink env p w1 = (r2, w2)"
    by (cases "unlink env p w1")
  obtain c2 where c2: "calls w2 = calls w1 @ c2"
    using calls_unlink [of env p w1] u by auto
  show ?thesis
  proof (cases r1)
    case (Inl e)
    then show ?thesis using t c1 by (simp add: voice_body_def)
  next
    case t': (Inr x)
    show ?thesis
    proof (cases r2)
      case (Inl e)
      then show ?thesis using t t' u c1 c2 by (simp add: voice_body_def)
    next
      case u': (Inr y)
      obtain r3 w3 where q: "process_query env x w2 = (r3, w3)"
        by (cases "process_query env x w2")
      obtain c3 where c3: "calls w3 = calls w2 @ c3"
        using calls_process_query [of env x w2] q by auto
      show ?thesis
        using t t' u u' q c1 c2 c3 by (cases r3) (simp_all add: voice_body_def)
    qed
  qed
qed

lemma chat_voice_reaches_storage:
  assumes "endswith_any (filename file) supported_suffixes"
  shows "\<exists>rest. calls (snd (chat_voice env file w)) =
           calls w @ Call_NamedTemporaryFile (snd (splitext (filename file))) # rest"
proof -
  obtain r1 w1 where s: "save_upload env file w = (r1, w1)"
    by (cases "save_upload env file w")
  have c1: "calls w1 = calls w @ [Call_NamedTemporaryFile (snd (splitext (filename file)))]"
    using save_upload_calls [of env "file" w] s by simp
  show ?thesis
  proof (cases r1)
    case (Inl e)
    then show ?thesis using assms s c1 by (simp add: chat_voice_not_stored)
  next
    case (Inr p)
    obtain r2 w2 where vb: "voice_body env p w1 = (r2, w2)"
      by (cases "voice_body env p w1")
    obtain c2 where c2: "calls w2 = calls w1 @ c2"
      using calls_voice_body [of env p w1] vb by auto
    have "snd (chat_voice env file w) = w2"
      using assms s Inr vb by (cases r2) (simp_all add: chat_voice_stored)
    then show ?thesis using c1 c2 by simp
  qed
qed

lemma endswith_any_supported:
  "endswith_any name supported_suffixes \<longleftrightarrow>
     (\<exists>stem. name = stem @ str ''.wav'' \<or> name = stem @ str ''.mp3'' \<or>
             name = stem @ str ''.ogg'' \<or> name = stem @ str ''.flac'')"
  by (simp add: endswith_any_def endswith_iff ex_disj_distrib)

text \<open>
  Claim C6. The check of the file name passes exactly for the names that end in
  \<^verbatim>\<open>.wav\<close>, \<^verbatim>\<open>.mp3\<close>, \<^verbatim>\<open>.ogg\<close> or \<^verbatim>\<open>.flac\<close>, compared character by character. Any
  other name is answered with the 400 in the state the request found: no temp file
  is created and no call is made. A name that passes is never answered with a 400,
  and the request goes on to create the temp file.
\<close>

theorem format_validation:
  "(endswith_any (filename file) supported_suffixes \<longleftrightarrow>
      (\<exists>stem. filename file = stem @ str ''.wav'' \<or> filename file = stem @ str ''.mp3'' \<or>
              filename file = stem @ str ''.ogg'' \<or> filename file = stem @ str ''.flac'')) \<and>
   (\<not> endswith_any (filename file) supported_suffixes \<longrightarrow>
      chat_voice env file w =
        (Inl (HTTPException 400
               (str ''Unsupported file format. Supported formats: WAV, MP3, OGG, FLAC'')), w)) \<and>
   (endswith_any (filename file) supported_suffixes \<longrightarrow>
      (\<forall>detail. fst (chat_voice env file w) \<noteq> Inl (HTTPException 400 detail)) \<and>
      (\<exists>rest. calls (snd (chat_voice env file w)) =
         calls w @ Call_NamedTemporaryFile (snd (splitext (filename file))) # rest))"
proof (intro conjI impI allI)
  show "endswith_any (filename file) supported_suffixes \<longleftrightarrow>
      (\<exists>stem. filename file = stem @ str ''.wav'' \<or> filename file = stem @ str ''.mp3'' \<or>
              filename file = stem @ str ''.ogg'' \<or> filename file = stem @ str ''.flac'')"
    by (rule endswith_any_supported)
next
  assume "\<not> endswith_any (filename file) supported_suffixes"
  then show "chat_voice env file w =
        (Inl (HTTPException 400
               (str ''Unsupported file format. Supported formats: WAV, MP3, OGG, FLAC'')), w)"
    by (rule chat_voice_rejected)
next
  fix detail
  assume ok: "endswith_any (filename file) supported_suffixes"
  show "fst (chat_voice env file w) \<noteq> Inl (HTTPException 400 detail)"
  proof
    assume "fst (chat_voice env file w) = Inl (HTTPException 400 detail)"
    from chat_voice_errors [OF this] ok show False by simp
  qed
next
  assume "endswith_any (filename file) supported_suffixes"
  then show "\<exists>rest. calls (snd (chat_voice env file w)) =
         calls w @ Call_NamedTemporaryFile (snd (splitext (filename file))) # rest"
    by (rule chat_voice_reaches_storage)
qed

theorem format_validation_witness:
  "\<not> endswith_any (filename (upload ''clip.mp4'' ''weather'')) supported_suffixes \<and>
   \<not> endswith_any (filename (upload ''clip.WAV'' ''weather'')) supported_suffixes \<and>
   chat_voice stub_env (upload ''clip.mp4'' ''weather'') empty_world =
     (Inl (HTTPException 400
            (str ''Unsupported file format. Supported formats: WAV, MP3, OGG, FLAC'')),
      empty_world) \<and>
   endswith_any (filename (upload ''clip.wav'' ''weather'')) supported_suffixes \<and>
   fst (chat_voice stub_env (upload ''clip.wav'' ''weather'') empty_world) \<noteq>
     Inl (HTTPException 400
           (str ''Unsupported file format. Supported formats: WAV, MP3, OGG, FLAC''))"
proof -
  have bad: "\<not> endswith_any (filename (upload ''clip.mp4'' ''weather'')) supported_suffixes"
    "\<not> endswith_any (filename (upload ''clip.WAV'' ''weather'')) supported_suffixes"
    by (simp_all add: endswith_any_def endswith_def upload_def)
  have good: "endswith_any (filename (upload ''clip.wav'' ''weather'')) supported_suffixes"
    by (simp add: endswith_any_def endswith_def upload_def)
  show ?thesis
    using bad good
      format_validation [of "upload ''clip.mp4'' ''weather''" stub_env empty_world]
      format_validation [of "upload ''clip.wav'' ''weather''" stub_env empty_world]
    by blast
qed

subsection \<open>Faults that no stage has mapped\<close>

lemma voice_body_unlink_fault:
  assumes t: "transcribe_audio env p w1 = (Inr t, w2)"
    and there: "files w1 p \<noteq> None"
    and fault: "os_unlink env (files w2) p = Some msg"
  shows "voice_body env p w1 = (Inl (Exception msg), record_call (Call_unlink p) w2)"
proof -
  have "files w2 = files w1"
    using files_transcribe_audio [of env p w1] t by simp
  then have "files w2 p \<noteq> None" using there by simp
  then have "unlink env p w2 = (Inl (Exception msg), record_call (Call_unlink p) w2)"
    using fault by (rule unlink_fault)
  then show ?thesis by (simp add: voice_body_def t)
qed

text \<open>
  Claim C7. Whatever the collaborators do, the voice endpoint never raises an
  exception that is not an \<^verbatim>\<open>HTTPException\<close>: what it raises is one of five fixed
  responses, with status 400, 500 or 503. A fault that no stage has mapped, which
  in this pipeline is a fault of \<^verbatim>\<open>os.unlink\<close> after the transcription, becomes the
  generic 500 \<^verbatim>\<open>Internal server error\<close>.
\<close>

theorem voice_faults_become_http_errors:
  "(\<forall>msg. fst (chat_voice env file w) \<noteq> Inl (Exception msg)) \<and>
   (\<forall>e. fst (chat_voice env file w) = Inl e \<longrightarrow>
      e = HTTPException 400
            (str ''Unsupported file format. Supported formats: WAV, MP3, OGG, FLAC'') \<or>
      e = HTTPException 500 (str ''File upload failed'') \<or>
      e = HTTPException 503 (str ''Models not initialized yet'') \<or>
      e = HTTPException 500 (str ''Audio processing failed'') \<or>
      e = HTTPException 500 (str ''Internal server error'')) \<and>
   (endswith_any (filename file) supported_suffixes \<and>
    save_upload env file w = (Inr p, w1) \<and>
    transcribe_audio env p w1 = (Inr t, w2) \<and>
    os_unlink env (files w2) p = Some msg \<longrightarrow>
      fst (chat_voice env file w) = Inl (HTTPException 500 (str ''Internal server error'')))"
proof (intro conjI allI impI)
  fix msg
  show "fst (chat_voice env file w) \<noteq> Inl (Exception msg)"
  proof
    assume "fst (chat_voice env file w) = Inl (Exception msg)"
    from chat_voice_errors [OF this] show False by simp
  qed
next
  fix e
  assume "fst (chat_voice env file w) = Inl e"
  from chat_voice_errors [OF this]
  show "e = HTTPException 400
            (str ''Unsupported file format. Supported formats: WAV, MP3, OGG, FLAC'') \<or>
      e = HTTPException 500 (str ''File upload failed'') \<or>
      e = HTTPException 503 (str ''Models not initialized yet'') \<or>
      e = HTTPException 500 (str ''Audio processing failed'') \<or>
      e = HTTPException 500 (str ''Internal server error'')"
    by blast
next
  assume a: "endswith_any (filename file) supported_suffixes \<and>
    save_upload env file w = (Inr p, w1) \<and>
    transcribe_audio env p w1 = (Inr t, w2) \<and>
    os_unlink env (files w2) p = Some msg"
  then have there: "files w1 p \<noteq> None"
    using save_upload_Inr(2) [of env "file" w p w1] by auto
  have "voice_body env p w1 = (Inl (Exception msg), record_call (Call_unlink p) w2)"
    using a there by (intro voice_body_unlink_fault) simp_all
  then show "fst (chat_voice env file w) = Inl (HTTPException 500 (str ''Internal server error''))"
    using a by (simp add: chat_voice_stored)
qed

theorem voice_faults_become_http_errors_witness:
  "endswith_any (filename (upload ''clip.wav'' ''weather'')) supported_suffixes \<and>
   os_unlink (stub_env\<lparr>os_unlink := \<lambda>disk p. Some (str ''PermissionError'')\<rparr>)
     [str ''/tmp/tmp0.wav'' \<mapsto> ''weather''] (str ''/tmp/tmp0.wav'') =
     Some (str ''PermissionError'') \<and>
   fst (chat_voice (stub_env\<lparr>os_unlink := \<lambda>disk p. Some (str ''PermissionError'')\<rparr>)
         (upload ''clip.wav'' ''weather'') empty_world) =
     Inl (HTTPException 500 (str ''Internal server error''))"
proof -
  let ?env = "stub_env\<lparr>os_unlink := \<lambda>disk p. Some (str ''PermissionError'')\<rparr>"
  let ?p = "str ''/tmp/tmp0.wav''"
  let ?w1 = "\<lparr>files = [?p \<mapsto> ''weather''], calls = [Call_NamedTemporaryFile (str ''.wav'')]\<rparr>"
  let ?w2 = "\<lparr>files = [?p \<mapsto> ''weather''],
              calls = [Call_NamedTemporaryFile (str ''.wav''), Call_transcribe_audio ?p,
                       Call_transcribe ?p]\<rparr>"
  have fmt: "endswith_any (filename (upload ''clip.wav'' ''weather'')) supported_suffixes"
    by (simp add: endswith_any_def endswith_def upload_def)
  have stored: "save_upload ?env (upload ''clip.wav'' ''weather'') empty_world = (Inr ?p, ?w1)"
    by (simp add: save_upload_def stub_env_def upload_def empty_world_def splitext_def
        record_call_def Let_def)
  have heard: "transcribe_audio ?env ?p ?w1 = (Inr (str ''weather''), ?w2)"
    by (simp add: transcribe_audio_def stub_env_def stub_whisper_def record_call_def Let_def
        dict_get_def strip_def isspace_def)
  have fault: "os_unlink ?env (files ?w2) ?p = Some (str ''PermissionError'')"
    by simp
  have "fst (chat_voice ?env (upload ''clip.wav'' ''weather'') empty_world) =
      Inl (HTTPException 500 (str ''Internal server error''))"
    using voice_faults_become_http_errors
      [of ?env "upload ''clip.wav'' ''weather''" empty_world ?p ?w1 "str ''weather''" ?w2
        "str ''PermissionError''"]
      fmt stored heard fault
    by blast
  with fmt fault show ?thesis by simp
qed

subsection \<open>The temp file\<close>

text \<open>
  When \<^verbatim>\<open>transcribe_audio\<close> raises, the request ends with that error and the temp
  file is still on disk: the \<^verbatim>\<open>os.unlink\<close> of the next line was not reached.
\<close>

lemma temp_file_kept:
  assumes fmt: "endswith_any (filename file) supported_suffixes"
    and stored: "save_upload env file w = (Inr p, w1)"
    and raised: "fst (transcribe_audio env p w1) = Inl e"
  shows "fst (chat_voice env file w) = Inl e"
    and "files (snd (chat_voice env file w)) p \<noteq> None"
proof -
  obtain w2 where t: "transcribe_audio env p w1 = (Inl e, w2)"
    using raised by (cases "transcribe_audio env p w1") simp
  have http: "voice_handlers e = e"
    using transcribe_audio_errors [OF raised] by auto
  have run: "chat_voice env file w = (Inl e, w2)"
    using http by (simp add: chat_voice_stored [OF fmt stored] voice_body_def t)
  have "files w2 = files w1"
    using files_transcribe_audio [of env p w1] t by simp
  moreover have "files w1 p \<noteq> None"
    using save_upload_Inr(2) [OF stored] by auto
  ultimately show "files (snd (chat_voice env file w)) p \<noteq> None"
    by (simp add: run)
  show "fst (chat_voice env file w) = Inl e"
    by (simp add: run)
qed

text \<open>
  Claim C4 says the temp file is removed whether transcription succeeds or raises.
  Two runs where it raises: before the engine is initialised (503), and with an
  engine that fails on the file (500). In both the file \<^verbatim>\<open>/tmp/tmp0.wav\<close> is on disk
  with the upload's bytes when the request ends, and \<^verbatim>\<open>os.unlink\<close> was not called.
\<close>

theorem temp_file_left_when_transcription_raises:
  "fst (chat_voice (stub_env\<lparr>whisper_model := None\<rparr>) (upload ''clip.wav'' ''weather'')
         empty_world) =
     Inl (HTTPException 503 (str ''Models not initialized yet'')) \<and>
   files (snd (chat_voice (stub_env\<lparr>whisper_model := None\<rparr>) (upload ''clip.wav'' ''weather'')
                empty_world)) (str ''/tmp/tmp0.wav'') = Some ''weather'' \<and>
   calls (snd (chat_voice (stub_env\<lparr>whisper_model := None\<rparr>) (upload ''clip.wav'' ''weather'')
                empty_world)) =
     [Call_NamedTemporaryFile (str ''.wav''), Call_transcribe_audio (str ''/tmp/tmp0.wav'')] \<and>
   fst (chat_voice stub_env (upload ''clip.wav'' ''noise'') empty_world) =
     Inl (HTTPException 500 (str ''Audio processing failed'')) \<and>
   files (snd (chat_voice stub_env (upload ''clip.wav'' ''noise'') empty_world))
     (str ''/tmp/tmp0.wav'') = Some ''noise'' \<and>
   calls (snd (chat_voice stub_env (upload ''clip.wav'' ''noise'') empty_world)) =
     [Call_NamedTemporaryFile (str ''.wav''), Call_transcribe_audio (str ''/tmp/tmp0.wav''),
      Call_transcribe (str ''/tmp/tmp0.wav'')]"
proof -
  let ?p = "str ''/tmp/tmp0.wav''"
  have fmt: "endswith_any (filename (upload ''clip.wav'' c)) supported_suffixes" for c
    by (simp add: endswith_any_def endswith_def upload_def)
  have s1: "save_upload (stub_env\<lparr>whisper_model := None\<rparr>) (upload ''clip.wav'' ''weather'')
      empty_world =
      (Inr ?p, \<lparr>files = [?p \<mapsto> ''weather''], calls = [Call_NamedTemporaryFile (str ''.wav'')]\<rparr>)"
    by (simp add: save_upload_def stub_env_def upload_def empty_world_def splitext_def
        record_call_def Let_def)
  have s2: "save_upload stub_env (upload ''clip.wav'' ''noise'') empty_world =
      (Inr ?p, \<lparr>files = [?p \<mapsto> ''noise''], calls = [Call_NamedTemporaryFile (str ''.wav'')]\<rparr>)"
    by (simp add: save_upload_def stub_env_def upload_def empty_world_def splitext_def
        record_call_def Let_def)
  have r1: "chat_voice (stub_env\<lparr>whisper_model := None\<rparr>) (upload ''clip.wav'' ''weather'')
      empty_world =
      (Inl (HTTPException 503 (str ''Models not initialized yet'')),
       \<lparr>files = [?p \<mapsto> ''weather''],
        calls = [Call_NamedTemporaryFile (str ''.wav''), Call_transcribe_audio ?p]\<rparr>)"
    by (simp add: chat_voice_stored [OF fmt s1] voice_body_def transcribe_audio_def
        record_call_def Let_def)
  have r2: "chat_voice stub_env (upload ''clip.wav'' ''noise'') empty_world =
      (Inl (HTTPException 500 (str ''Audio processing failed'')),
       \<lparr>files = [?p \<mapsto> ''noise''],
        calls = [Call_NamedTemporaryFile (str ''.wav''), Call_transcribe_audio ?p,
                 Call_transcribe ?p]\<rparr>)"
  proof -
    have "voice_body stub_env ?p
        \<lparr>files = [?p \<mapsto> ''noise''], calls = [Call_NamedTemporaryFile (str ''.wav'')]\<rparr> =
        (Inl (HTTPException 500 (str ''Audio processing failed'')),
         \<lparr>files = [?p \<mapsto> ''noise''],
          calls = [Call_NamedTemporaryFile (str ''.wav''), Call_transcribe_audio ?p,
                   Call_transcribe ?p]\<rparr>)"
      by (simp add: voice_body_def transcribe_audio_def stub_env_def stub_whisper_def
          record_call_def Let_def)
    then show ?thesis
      using chat_voice_stored [OF fmt s2] by simp
  qed
  show ?thesis
    by (simp add: r1 r2)
qed

subsection \<open>The response of a successful result\<close>

lemma process_query_response:
  assumes "fst (process_query env q w) = Inr r"
  shows "response r \<noteq> [] \<or>
         (\<exists>agent result. agent_executor env = Some agent \<and> agent q = Inr result \<and>
            output_text result = Some [])"
proof (cases "agent_executor env")
  case None
  then show ?thesis using assms by (simp add: process_query_not_ready)
next
  case (Some agent)
  show ?thesis
  proof (cases "q = []")
    case True
    then show ?thesis using assms Some by (auto simp: process_query_def Let_def)
  next
    case False
    show ?thesis
    proof (cases "agent q")
      case (Inl e)
      then show ?thesis using assms Some False by (auto simp: process_query_def Let_def)
    next
      case (Inr result)
      show ?thesis
      proof (cases "output_text result")
        case None
        then show ?thesis
          using assms by (auto simp: process_query_invoked [OF Some False Inr] dict_get_def)
      next
        case out: (Some answer)
        then have "response r = answer"
          using assms by (auto simp: process_query_invoked [OF Some False Inr] dict_get_def)
        then show ?thesis using Some Inr out by auto
      qed
    qed
  qed
qed

lemma voice_body_Inr:
  assumes "fst (voice_body env p w) = Inr v"
  shows "response v = str ''I didn't catch that. Could you please repeat?'' \<or>
         (\<exists>w2 r. fst (process_query env (transcript v) w2) = Inr r \<and> response v = response r)"
proof -
  obtain r1 w1 where t: "transcribe_audio env p w = (r1, w1)"
    by (cases "transcribe_audio env p w")
  obtain r2 w2 where u: "unlink env p w1 = (r2, w2)"
    by (cases "unlink env p w1")
  show ?thesis
  proof (cases r1)
    case (Inl e)
    then show ?thesis using assms t by (simp add: voice_body_def)
  next
    case t': (Inr x)
    show ?thesis
    proof (cases r2)
      case (Inl e)
      then show ?thesis using assms t t' u by (simp add: voice_body_def)
    next
      case u': (Inr y)
      show ?thesis
      proof (cases "x = []")
        case True
        then show ?thesis using assms t t' u u' by (auto simp: voice_body_def)
      next
        case False
        obtain r3 w3 where q: "process_query env x w2 = (r3, w3)"
          by (cases "process_query env x w2")
        show ?thesis
        proof (cases r3)
          case (Inl e)
          then show ?thesis using assms t t' u u' False q by (simp add: voice_body_def)
        next
          case (Inr r)
          then have v: "v = \<lparr>response = response r, search_triggered = search_triggered r,
              transcript = x\<rparr>"
            using assms t t' u u' False q by (simp add: voice_body_def)
          have "fst (process_query env (transcript v) w2) = Inr r"
            using q Inr v by simp
          moreover have "response v = response r" using v by simp
          ultimately show ?thesis by blast
        qed
      qed
    qed
  qed
qed

lemma chat_voice_Inr:
  assumes "fst (chat_voice env file w) = Inr v"
  shows "\<exists>p w1. endswith_any (filename file) supported_suffixes \<and>
           fst (save_upload env file w) = Inr p \<and> fst (voice_body env p w1) = Inr v \<and>
           w1 = snd (save_upload env file w) \<and>
           snd (chat_voice env file w) = snd (voice_body env p w1)"
proof -
  have fmt: "endswith_any (filename file) supported_suffixes"
    using assms by (rule contrapos_pp) (simp add: chat_voice_rejected)
  obtain r1 w1 where s: "save_upload env file w = (r1, w1)"
    by (cases "save_upload env file w")
  show ?thesis
  proof (cases r1)
    case (Inl e)
    then show ?thesis using assms fmt s by (simp add: chat_voice_not_stored)
  next
    case (Inr p)
    obtain r2 w2 where vb: "voice_body env p w1 = (r2, w2)"
      by (cases "voice_body env p w1")
    have "r2 = Inr v \<and> snd (chat_voice env file w) = w2"
      using assms fmt s Inr vb by (cases r2) (simp_all add: chat_voice_stored)
    then show ?thesis using fmt s Inr vb by simp
  qed
qed

lemma chat_voice_answered:
  assumes fmt: "endswith_any (filename file) supported_suffixes"
    and stored: "save_upload env file w = (Inr p, w1)"
    and answered: "fst (voice_body env p w1) = Inr v"
  shows "fst (chat_voice env file w) = Inr v"
proof -
  obtain w2 where "voice_body env p w1 = (Inr v, w2)"
    using answered by (cases "voice_body env p w1") simp
  then show ?thesis by (simp add: chat_voice_stored [OF fmt stored])
qed

text \<open>
  Where an empty response can come from. A successful result of the text or the
  voice endpoint has a non-empty response on every path but one: the agent was
  invoked on the query (for the voice endpoint, on the transcript) and returned an
  output that is the empty string. When the agent's result has no output at all,
  \<^verbatim>\<open>process_query\<close> returns and its response is the fallback message.
\<close>

lemma response_empty_only_from_agent_output:
  "(fst (chat_text env query w) = Inr v \<longrightarrow>
      response v \<noteq> [] \<or>
      (\<exists>agent result. agent_executor env = Some agent \<and> agent query = Inr result \<and>
         output_text result = Some [])) \<and>
   (fst (chat_voice env file w) = Inr v' \<longrightarrow>
      response v' \<noteq> [] \<or>
      (\<exists>agent result. agent_executor env = Some agent \<and> agent (transcript v') = Inr result \<and>
         output_text result = Some [])) \<and>
   (agent_executor env = Some agent \<and> query \<noteq> [] \<and> agent query = Inr result \<and>
    output_text result = None \<longrightarrow>
      (\<exists>r. fst (process_query env query w) = Inr r \<and>
           response r = str ''I couldn't process that request.''))"
proof (intro conjI impI)
  assume a: "fst (chat_text env query w) = Inr v"
  obtain r1 w1 where q: "process_query env query w = (r1, w1)"
    by (cases "process_query env query w")
  show "response v \<noteq> [] \<or>
      (\<exists>agent result. agent_executor env = Some agent \<and> agent query = Inr result \<and>
         output_text result = Some [])"
  proof (cases r1)
    case (Inl e)
    then show ?thesis using a q by (simp add: chat_text_def)
  next
    case (Inr r)
    then have "response v = response r" using a q by (auto simp: chat_text_def)
    moreover have "fst (process_query env query w) = Inr r" using q Inr by simp
    ultimately show ?thesis using process_query_response by fastforce
  qed
next
  assume "fst (chat_voice env file w) = Inr v'"
  from chat_voice_Inr [OF this] obtain p w1 where "fst (voice_body env p w1) = Inr v'"
    by blast
  from voice_body_Inr [OF this]
  show "response v' \<noteq> [] \<or>
      (\<exists>agent result. agent_executor env = Some agent \<and> agent (transcript v') = Inr result \<and>
         output_text result = Some [])"
  proof
    assume "response v' = str ''I didn't catch that. Could you please repeat?''"
    then show ?thesis by simp
  next
    assume "\<exists>w2 r. fst (process_query env (transcript v') w2) = Inr r \<and> response v' = response r"
    then obtain w2 r where "fst (process_query env (transcript v') w2) = Inr r"
      and "response v' = response r" by blast
    then show ?thesis using process_query_response by fastforce
  qed
next
  assume a: "agent_executor env = Some agent \<and> query \<noteq> [] \<and> agent query = Inr result \<and>
    output_text result = None"
  then have ready: "agent_executor env = Some agent" and nonempty: "query \<noteq> []"
    and invoked: "agent query = Inr result"
    by simp_all
  have "process_query env query w =
      (Inr \<lparr>response = dict_get (output_text result) (str ''I couldn't process that request.''),
            search_triggered =
              list_ex (\<lambda>step. tool (fst step) = str ''WebSearch'')
                (dict_get (intermediate_steps result) [])\<rparr>,
       record_call (Call_invoke query) (record_call (Call_process_query query) w))"
    by (rule process_query_invoked [OF ready nonempty invoked])
  then show "\<exists>r. fst (process_query env query w) = Inr r \<and>
           response r = str ''I couldn't process that request.''"
    using a by (simp add: dict_get_def)
qed


text \<open>
  Claim C5 says the response of every successful result is non-empty, the fallback
  message standing in when the agent produces no usable output. The code has that
  fallback, and it is returned when the agent's result has no \<^verbatim>\<open>"output"\<close> (the second
  run below). But \<^verbatim>\<open>result.get("output", ...)\<close> takes its default only for a missing
  key: when the \<^verbatim>\<open>"output"\<close> is the empty string (the first run), the response of the
  successful result is empty.
\<close>

theorem empty_agent_output_gives_empty_response:
  "stub_agent (str ''hush'') = Inr \<lparr>output_text = Some [], intermediate_steps = None\<rparr> \<and>
   fst (chat_text stub_env (str ''hush'') empty_world) =
     Inr \<lparr>response = [], search_triggered = False, transcript = str ''hush''\<rparr> \<and>
   fst (chat_text stub_env (str ''2+2'') empty_world) =
     Inr \<lparr>response = str ''I couldn't process that request.'', search_triggered = False,
          transcript = str ''2+2''\<rparr>"
  by (simp add: chat_text_def process_query_def stub_env_def stub_agent_def dict_get_def
      record_call_def Let_def)

subsection \<open>Repeated calls\<close>

text \<open>
  A call that returns a result leaves the files as it found them: the temp file it
  created is the one it removed.
\<close>

lemma voice_body_Inr_files:
  assumes "fst (voice_body env p w) = Inr v"
  shows "files (snd (voice_body env p w)) = (files w)(p := None)"
  using assms
  by (auto simp: voice_body_def transcribe_audio_def unlink_def process_query_def
      record_call_def Let_def split: option.splits sum.splits if_splits)

lemma chat_voice_restores_files:
  assumes "fst (chat_voice env file w) = Inr v"
  shows "files (snd (chat_voice env file w)) = files w"
proof -
  from chat_voice_Inr [OF assms] obtain p w1 where
    stored: "fst (save_upload env file w) = Inr p" "w1 = snd (save_upload env file w)"
    and body: "fst (voice_body env p w1) = Inr v"
    and last: "snd (chat_voice env file w) = snd (voice_body env p w1)"
    by blast
  have "save_upload env file w = (Inr p, w1)"
    using stored by (simp add: prod_eq_iff)
  from save_upload_Inr(1,2) [OF this] obtain content where
    fresh: "files w p = None" and written: "files w1 = (files w)(p \<mapsto> content)"
    by blast
  have "files (snd (chat_voice env file w)) = (files w1)(p := None)"
    using voice_body_Inr_files [OF body] last by simp
  also have "\<dots> = files w"
    using fresh written by (simp add: fun_upd_idem)
  finally show ?thesis .
qed

text \<open>
  The answer to a transcript depends on the environment only through the agent,
  and not on the state.
\<close>

lemma process_query_same_agent:
  assumes "agent_executor env1 = agent_executor env2"
  shows "fst (process_query env1 q w1) = fst (process_query env2 q w2)"
  using assms
  by (simp add: process_query_def Let_def split: option.splits sum.splits)

text \<open>
  The result of the second \<^verbatim>\<open>try\<close>, read off the engine's answer: what a returned
  result must be, and when a result is returned.
\<close>

lemma voice_body_Inr_value:
  assumes "fst (voice_body env p w) = Inr v"
  shows "\<exists>model result. whisper_model env = Some model \<and> model (files w) p = Inr result \<and>
           (if strip (dict_get (text_key result) []) = []
            then v = \<lparr>response = str ''I didn't catch that. Could you please repeat?'',
                       search_triggered = False, transcript = []\<rparr>
            else \<exists>r. fst (process_query env (strip (dict_get (text_key result) [])) w) = Inr r \<and>
                   v = \<lparr>response = response r, search_triggered = search_triggered r,
                        transcript = strip (dict_get (text_key result) [])\<rparr>)"
proof (cases "whisper_model env")
  case None
  then show ?thesis
    using assms by (simp add: voice_body_def transcribe_audio_not_ready)
next
  case (Some model)
  let ?w2 = "record_call (Call_transcribe p) (record_call (Call_transcribe_audio p) w)"
  have same: "files ?w2 = files w"
    by (simp add: record_call_def)
  show ?thesis
  proof (cases "model (files w) p")
    case (Inl e)
    then show ?thesis
      using assms by (simp add: voice_body_def transcribe_audio_fault [OF Some Inl])
  next
    case (Inr result)
    let ?t = "strip (dict_get (text_key result) [])"
    note heard = transcribe_audio_text [OF Some Inr]
    obtain r2 w3 where u: "unlink env p ?w2 = (r2, w3)"
      by (cases "unlink env p ?w2")
    have body: "(case r2 of
          Inl e \<Rightarrow> (Inl e, w3)
        | Inr u \<Rightarrow>
            if ?t = [] then
              (Inr \<lparr>response = str ''I didn't catch that. Could you please repeat?'',
                    search_triggered = False, transcript = []\<rparr>, w3)
            else
              (case process_query env ?t w3 of
                 (Inl e, w4) \<Rightarrow> (Inl e, w4)
               | (Inr result, w4) \<Rightarrow>
                   (Inr \<lparr>response = response result,
                         search_triggered = search_triggered result,
                         transcript = ?t\<rparr>, w4))) = voice_body env p w"
      by (simp add: voice_body_def heard u)
    have answer: "if ?t = []
        then v = \<lparr>response = str ''I didn't catch that. Could you please repeat?'',
                   search_triggered = False, transcript = []\<rparr>
        else \<exists>r. fst (process_query env ?t w) = Inr r \<and>
               v = \<lparr>response = response r, search_triggered = search_triggered r,
                    transcript = ?t\<rparr>"
    proof (cases r2)
      case (Inl e)
      then show ?thesis using assms body [symmetric] by simp
    next
      case unlinked: (Inr x)
      show ?thesis
      proof (cases "?t = []")
        case True
        then show ?thesis using assms body [symmetric] unlinked by simp
      next
        case False
        obtain r3 w4 where q: "process_query env ?t w3 = (r3, w4)"
          by (cases "process_query env ?t w3")
        show ?thesis
        proof (cases r3)
          case (Inl e)
          then show ?thesis using assms body [symmetric] unlinked False q by simp
        next
          case (Inr r)
          then have v: "v = \<lparr>response = response r, search_triggered = search_triggered r,
              transcript = ?t\<rparr>"
            using assms body [symmetric] unlinked False q by simp
          have "fst (process_query env ?t w) = fst (process_query env ?t w3)"
            by (rule process_query_same_agent) (rule refl)
          then have "fst (process_query env ?t w) = Inr r"
            using q Inr by simp
          then show ?thesis using v False by auto
        qed
      qed
    qed
    from Some Inr answer show ?thesis by blast
  qed
qed

lemma voice_body_value:
  assumes ready: "whisper_model env = Some model"
    and heard: "model (files w) p = Inr result"
    and there: "files w p \<noteq> None"
    and removed: "os_unlink env (files w) p = None"
    and answer: "if strip (dict_get (text_key result) []) = []
        then v = \<lparr>response = str ''I didn't catch that. Could you please repeat?'',
                   search_triggered = False, transcript = []\<rparr>
        else \<exists>r. fst (process_query env (strip (dict_get (text_key result) [])) w) = Inr r \<and>
               v = \<lparr>response = response r, search_triggered = search_triggered r,
                    transcript = strip (dict_get (text_key result) [])\<rparr>"
  shows "fst (voice_body env p w) = Inr v"
proof -
  let ?t = "strip (dict_get (text_key result) [])"
  let ?w2 = "record_call (Call_transcribe p) (record_call (Call_transcribe_audio p) w)"
  let ?w3 = "(record_call (Call_unlink p) ?w2)\<lparr>files := (files ?w2)(p := None)\<rparr>"
  have same: "files ?w2 = files w"
    by (simp add: record_call_def)
  have t: "transcribe_audio env p w = (Inr ?t, ?w2)"
    by (rule transcribe_audio_text [OF ready heard])
  have there': "files ?w2 p \<noteq> None"
    unfolding same by (rule there)
  have removed': "os_unlink env (files ?w2) p = None"
    unfolding same by (rule removed)
  have u: "unlink env p ?w2 = (Inr (), ?w3)"
    by (rule unlink_done [OF there' removed'])
  show ?thesis
  proof (cases "?t = []")
    case True
    then show ?thesis using answer by (simp add: voice_body_def t u)
  next
    case False
    then obtain r where r: "fst (process_query env ?t w) = Inr r"
      and v: "v = \<lparr>response = response r, search_triggered = search_triggered r,
          transcript = ?t\<rparr>"
      using answer by auto
    have "fst (process_query env ?t ?w3) = fst (process_query env ?t w)"
      by (rule process_query_same_agent) (rule refl)
    then obtain w4 where "process_query env ?t ?w3 = (Inr r, w4)"
      using r by (cases "process_query env ?t ?w3") simp
    then show ?thesis using False v by (simp add: voice_body_def t u)
  qed
qed

text \<open>
  Claim C9. Two calls of the voice endpoint on the same upload, with the same
  engine and the same agent, the engine's answer depending only on the content of
  the file it is given. Everything else may differ from one call to the other: the
  state it starts in (the second may start where the first ended), the random name
  of the temp file, the faults of the temp-file calls. Then, the first call having
  returned a result, the second returns no other result; and it does return that
  result whenever its upload is stored and its temp file is unlinked.
\<close>

theorem chat_voice_repeatable:
  assumes same_engine: "whisper_model env1 = whisper_model env2"
    and same_agent: "agent_executor env1 = agent_executor env2"
    and by_content: "\<And>model disk p disk' p'.
        whisper_model env1 = Some model \<Longrightarrow> disk p = disk' p' \<Longrightarrow> model disk p = model disk' p'"
    and first: "fst (chat_voice env1 file w1) = Inr v1"
  shows "(\<forall>v2. fst (chat_voice env2 file w2) = Inr v2 \<longrightarrow> v2 = v1) \<and>
         (\<forall>p2 w2'. save_upload env2 file w2 = (Inr p2, w2') \<and>
             os_unlink env2 (files w2') p2 = None \<longrightarrow>
             fst (chat_voice env2 file w2) = Inr v1)"
proof -
  let ?clar = "\<lparr>response = str ''I didn't catch that. Could you please repeat?'',
      search_triggered = False, transcript = []\<rparr>"
  from chat_voice_Inr [OF first] obtain p1 w1' where
    fmt: "endswith_any (filename file) supported_suffixes"
    and s1: "fst (save_upload env1 file w1) = Inr p1" "w1' = snd (save_upload env1 file w1)"
    and body1: "fst (voice_body env1 p1 w1') = Inr v1"
    by blast
  have stored1: "save_upload env1 file w1 = (Inr p1, w1')"
    using s1 by (simp add: prod_eq_iff)
  from save_upload_Inr(2) [OF stored1] obtain content where
    read: "read file = Inr content" and disk1: "files w1' p1 = Some content"
    by auto
  from voice_body_Inr_value [OF body1] obtain model result where
    ready1: "whisper_model env1 = Some model"
    and heard1: "model (files w1') p1 = Inr result"
    and answer1: "if strip (dict_get (text_key result) []) = [] then v1 = ?clar
        else \<exists>r. fst (process_query env1 (strip (dict_get (text_key result) [])) w1') = Inr r \<and>
               v1 = \<lparr>response = response r, search_triggered = search_triggered r,
                     transcript = strip (dict_get (text_key result) [])\<rparr>"
    by blast
  let ?t = "strip (dict_get (text_key result) [])"
  have ready2: "whisper_model env2 = Some model"
    using ready1 same_engine by simp
  have second: "files w2' p2 = Some content \<and> model (files w2') p2 = Inr result \<and>
      (if ?t = [] then v1 = ?clar
       else \<exists>r. fst (process_query env2 ?t w2') = Inr r \<and>
              v1 = \<lparr>response = response r, search_triggered = search_triggered r,
                    transcript = ?t\<rparr>)"
    if stored2: "save_upload env2 file w2 = (Inr p2, w2')" for p2 w2'
  proof -
    from save_upload_Inr(2) [OF stored2] have disk2: "files w2' p2 = Some content"
      using read by auto
    have "model (files w2') p2 = model (files w1') p1"
      using disk1 disk2 by (intro by_content [OF ready1]) simp
    then have heard2: "model (files w2') p2 = Inr result"
      using heard1 by simp
    have "fst (process_query env2 ?t w2') = fst (process_query env1 ?t w1')"
      by (rule process_query_same_agent) (rule same_agent [symmetric])
    then have "if ?t = [] then v1 = ?clar
       else \<exists>r. fst (process_query env2 ?t w2') = Inr r \<and>
              v1 = \<lparr>response = response r, search_triggered = search_triggered r,
                    transcript = ?t\<rparr>"
      using answer1 by simp
    with disk2 heard2 show ?thesis by blast
  qed
  show ?thesis
  proof (intro conjI allI impI)
    fix v2
    assume again: "fst (chat_voice env2 file w2) = Inr v2"
    from chat_voice_Inr [OF again] obtain p2 w2' where
      s2: "fst (save_upload env2 file w2) = Inr p2" "w2' = snd (save_upload env2 file w2)"
      and body2: "fst (voice_body env2 p2 w2') = Inr v2"
      by blast
    have stored2: "save_upload env2 file w2 = (Inr p2, w2')"
      using s2 by (simp add: prod_eq_iff)
    note second [OF stored2]
    moreover from voice_body_Inr_value [OF body2] obtain model2 result2 where
      "whisper_model env2 = Some model2" "model2 (files w2') p2 = Inr result2"
      and answer2: "if strip (dict_get (text_key result2) []) = [] then v2 = ?clar
        else \<exists>r. fst (process_query env2 (strip (dict_get (text_key result2) [])) w2') = Inr r \<and>
               v2 = \<lparr>response = response r, search_triggered = search_triggered r,
                     transcript = strip (dict_get (text_key result2) [])\<rparr>"
      by blast
    moreover have "result2 = result"
      using calculation(1-3) ready2 by simp
    ultimately show "v2 = v1"
      by (cases "?t = []") auto
  next
    fix p2 w2'
    assume a: "save_upload env2 file w2 = (Inr p2, w2') \<and> os_unlink env2 (files w2') p2 = None"
    then have stored2: "save_upload env2 file w2 = (Inr p2, w2')"
      and removed: "os_unlink env2 (files w2') p2 = None"
      by simp_all
    from second [OF stored2] have there: "files w2' p2 \<noteq> None"
      and heard2: "model (files w2') p2 = Inr result"
      and answer2: "if ?t = [] then v1 = ?clar
         else \<exists>r. fst (process_query env2 ?t w2') = Inr r \<and>
                v1 = \<lparr>response = response r, search_triggered = search_triggered r,
                      transcript = ?t\<rparr>"
      by simp_all
    have "fst (voice_body env2 p2 w2') = Inr v1"
      by (rule voice_body_value [OF ready2 heard2 there removed answer2])
    then show "fst (chat_voice env2 file w2) = Inr v1"
      by (rule chat_voice_answered [OF fmt stored2])
  qed
qed

theorem chat_voice_repeatable_witness:
  "whisper_model stub_env =
     whisper_model (stub_env\<lparr>NamedTemporaryFile := \<lambda>disk suffix. Inr (str ''/tmp/tmp1'' @ suffix)\<rparr>) \<and>
   agent_executor stub_env =
     agent_executor (stub_env\<lparr>NamedTemporaryFile := \<lambda>disk suffix. Inr (str ''/tmp/tmp1'' @ suffix)\<rparr>) \<and>
   fst (chat_voice stub_env (upload ''clip.wav'' ''weather'') empty_world) =
     Inr \<lparr>response = str ''Sunny'', search_triggered = True, transcript = str ''weather''\<rparr> \<and>
   fst (save_upload (stub_env\<lparr>NamedTemporaryFile := \<lambda>disk suffix. Inr (str ''/tmp/tmp1'' @ suffix)\<rparr>)
         (upload ''clip.wav'' ''weather'')
         (snd (chat_voice stub_env (upload ''clip.wav'' ''weather'') empty_world))) =
     Inr (str ''/tmp/tmp1.wav'') \<and>
   fst (chat_voice (stub_env\<lparr>NamedTemporaryFile := \<lambda>disk suffix. Inr (str ''/tmp/tmp1'' @ suffix)\<rparr>)
         (upload ''clip.wav'' ''weather'')
         (snd (chat_voice stub_env (upload ''clip.wav'' ''weather'') empty_world))) =
     Inr \<lparr>response = str ''Sunny'', search_triggered = True, transcript = str ''weather''\<rparr>"
proof -
  let ?env2 = "stub_env\<lparr>NamedTemporaryFile := \<lambda>disk suffix. Inr (str ''/tmp/tmp1'' @ suffix)\<rparr>"
  let ?file = "upload ''clip.wav'' ''weather''"
  let ?v = "\<lparr>response = str ''Sunny'', search_triggered = True,
      transcript = str ''weather''\<rparr>"
  let ?w2 = "snd (chat_voice stub_env ?file empty_world)"
  have same_engine: "whisper_model stub_env = whisper_model ?env2"
    and same_agent: "agent_executor stub_env = agent_executor ?env2"
    by simp_all
  have by_content: "model disk p = model disk' p'"
    if "whisper_model stub_env = Some model" and "disk p = disk' p'"
    for model and disk disk' :: fs and p p'
    using that by (auto simp: stub_env_def stub_whisper_def)
  have fmt: "endswith_any (filename ?file) supported_suffixes"
    by (simp add: endswith_any_def endswith_def upload_def)
  have "fst (voice_body stub_env (str ''/tmp/tmp0.wav'')
      \<lparr>files = [str ''/tmp/tmp0.wav'' \<mapsto> ''weather''],
       calls = [Call_NamedTemporaryFile (str ''.wav'')]\<rparr>) = Inr ?v"
    by (simp add: voice_body_def transcribe_audio_def unlink_def process_query_def
        stub_env_def stub_whisper_def stub_agent_def dict_get_def strip_def isspace_def
        record_call_def Let_def)
  then have first: "fst (chat_voice stub_env ?file empty_world) = Inr ?v"
    by (rule chat_voice_answered [OF fmt stub_save [where m = "whisper_model stub_env"
          and a = "agent_executor stub_env" and content = "''weather''",
          unfolded stub_env_fields]])
  have "files ?w2 = files empty_world"
    using first by (rule chat_voice_restores_files)
  then have clean: "files ?w2 = Map.empty"
    by (simp add: empty_world_def)
  have "fst (save_upload ?env2 ?file w) = Inr (str ''/tmp/tmp1.wav'')"
    if "files w = Map.empty" for w
    using that
    by (simp add: save_upload_def stub_env_def upload_def splitext_def record_call_def Let_def)
  from this [OF clean]
  have named: "fst (save_upload ?env2 ?file ?w2) = Inr (str ''/tmp/tmp1.wav'')" .
  then have stored: "save_upload ?env2 ?file ?w2 =
      (Inr (str ''/tmp/tmp1.wav''), snd (save_upload ?env2 ?file ?w2))"
    by (simp add: prod_eq_iff)
  have removed: "os_unlink ?env2 (files (snd (save_upload ?env2 ?file ?w2)))
      (str ''/tmp/tmp1.wav'') = None"
    by (simp add: stub_env_def)
  from chat_voice_repeatable [OF same_engine same_agent by_content first, of ?w2]
    stored removed
  have again: "fst (chat_voice ?env2 ?file ?w2) = Inr ?v"
    by blast
  from same_engine same_agent first named again show ?thesis
    by (intro conjI)
qed

end
